theory Spec2Isabelle
  imports Complex_Main "HOL-Library.Word" "HOL-Library.Monad_Syntax"
begin

unbundle bit_operations_syntax

section \<open>The terrain geometry engine of 3DMapMaker\<close>

text \<open>
  A shallow embedding of the geometry utilities of the \<open>terrain-tiles\<close> application:
  \<^item> \<open>contourGenerator.ts\<close>: marching squares and the chaining of segments into paths,
  \<^item> the mesh generator (Gaussian smoothing of the heightfield, the regular grid mesh,
    Laplacian smoothing of the mesh),
  \<^item> the TIN generator (selection of the points of the adaptive mesh),
  \<^item> \<open>stlExporter.ts\<close>: extrusion of the surface to a solid and the binary STL encoding.

  Numbers. A JavaScript \<open>number\<close> is modelled as a \<^typ>\<open>real\<close>: arithmetic is exact, there
  is no rounding (neither of the doubles nor of the 32-bit floats a \<open>Float32Array\<close>
  stores), and \<open>NaN\<close> and the infinities have no counterpart. Where the source can
  produce them (a read outside an array that has no \<open>??\<close> fallback, a division by zero)
  the text of the function says so, and the theorems carry the hypothesis that
  excludes it. Array lengths, indices and loop counters are \<^typ>\<open>nat\<close>; a difference
  that can be negative in the source is computed on \<^typ>\<open>int\<close>.
\<close>

record ElevationData =
  elevations :: "real list"
  width :: nat
  height :: nat
  minElevation :: real
  maxElevation :: real

text \<open>A loop \<open>for (...) acc.push(f x)\<close> collects the images in order.\<close>

lemma fold_push_map: "fold (\<lambda>x acc. acc @ [f x]) xs acc = acc @ map f xs"
  by (induction xs arbitrary: acc) simp_all

lemma fold_push_concat: "fold (\<lambda>x acc. acc @ f x) xs acc = acc @ concat (map f xs)"
  by (induction xs arbitrary: acc) simp_all

section \<open>Contours: marching squares (contourGenerator.ts)\<close>

type_synonym point = "real \<times> real"
type_synonym segment = "point \<times> point"

record ContourLayer =
  elevation :: real
  paths :: "point list list"





subsection \<open>Chaining segments into paths\<close>

definition tolerance :: real where
  "tolerance = 0.001"

definition pointsEqual :: "point \<Rightarrow> point \<Rightarrow> bool" where
  "pointsEqual p1 p2 \<longleftrightarrow> \<bar>fst p1 - fst p2\<bar> < tolerance \<and> \<bar>snd p1 - snd p2\<bar> < tolerance"

text \<open>
  \<open>findConnecting\<close> returns the first index that is neither used nor excluded and has an
  end at the point; \<open>None\<close> is the source's \<open>-1\<close>.
\<close>

definition findConnecting :: "segment list \<Rightarrow> nat set \<Rightarrow> point \<Rightarrow> nat \<Rightarrow> nat option" where
  "findConnecting segments used pt excludeIndex =
     List.find (\<lambda>i. \<not> (i \<in> used \<or> i = excludeIndex) \<and>
                     (pointsEqual (fst (segments ! i)) pt \<or> pointsEqual (snd (segments ! i)) pt))
       [0..<length segments]"

lemma findConnecting_Some:
  "findConnecting segments used pt ex = Some n \<Longrightarrow> n < length segments \<and> n \<notin> used"
  by (auto simp: findConnecting_def find_Some_iff)

lemma card_unused_less:
  "n < m \<Longrightarrow> n \<notin> used \<Longrightarrow> card ({..<m} - insert n used) < card ({..<m::nat} - used)"
  by (rule psubset_card_mono) auto

text \<open>
  The two \<open>while (true)\<close> loops. Each round marks one more segment as used, so the number
  of unused segments is a measure.
\<close>

function extendForward ::
  "segment list \<Rightarrow> nat set \<Rightarrow> point list \<Rightarrow> point \<Rightarrow> nat \<Rightarrow> nat set \<times> point list" where
  "extendForward segments used path currentPoint currentIdx =
     (case findConnecting segments used currentPoint currentIdx of
        None \<Rightarrow> (used, path)
      | Some nextIdx \<Rightarrow>
          (let seg = segments ! nextIdx in
           if pointsEqual (fst seg) currentPoint
           then extendForward segments (insert nextIdx used) (path @ [snd seg]) (snd seg) nextIdx
           else extendForward segments (insert nextIdx used) (path @ [fst seg]) (fst seg) nextIdx))"
  by pat_completeness auto
termination
  by (relation "measure (\<lambda>(segments, used, path, p, i). card ({..<length segments} - used))")
     (auto dest!: findConnecting_Some intro: card_unused_less)

function extendBackward ::
  "segment list \<Rightarrow> nat set \<Rightarrow> point list \<Rightarrow> point \<Rightarrow> nat \<Rightarrow> nat set \<times> point list" where
  "extendBackward segments used path currentPoint currentIdx =
     (case findConnecting segments used currentPoint currentIdx of
        None \<Rightarrow> (used, path)
      | Some prevIdx \<Rightarrow>
          (let seg = segments ! prevIdx in
           if pointsEqual (fst seg) currentPoint
           then extendBackward segments (insert prevIdx used) (snd seg # path) (snd seg) prevIdx
           else extendBackward segments (insert prevIdx used) (fst seg # path) (fst seg) prevIdx))"
  by pat_completeness auto
termination
  by (relation "measure (\<lambda>(segments, used, path, p, i). card ({..<length segments} - used))")
     (auto dest!: findConnecting_Some intro: card_unused_less)

text \<open>
  One round of the outer loop of \<open>connectSegments\<close>, on the state \<open>(paths, used)\<close>. The
  coordinates are divided by \<open>width - 1\<close> and \<open>height - 1\<close>; for a width or height of 1 the
  source divides by zero and gets an infinity or \<open>NaN\<close>.
\<close>

definition connectStep ::
  "segment list \<Rightarrow> nat \<Rightarrow> nat \<Rightarrow> nat \<Rightarrow> point list list \<times> nat set \<Rightarrow> point list list \<times> nat set" where
  "connectStep segments w h i st =
     (case st of (acc, used) \<Rightarrow>
        if i \<in> used then (acc, used)
        else
          (let path = [fst (segments ! i), snd (segments ! i)];
               used = insert i used;
               (used, path) = extendForward segments used path (snd (segments ! i)) i;
               (used, path) = extendBackward segments used path (hd path) i;
               normalizedPath = map (\<lambda>(x, y). (x / (real w - 1), y / (real h - 1))) path
           in (acc @ [normalizedPath], used)))"

definition connectSegments :: "segment list \<Rightarrow> nat \<Rightarrow> nat \<Rightarrow> point list list" where
  "connectSegments segments w h =
     fst (fold (connectStep segments w h) [0..<length segments] ([], {}))"



section \<open>The mesh generator\<close>

record MeshOptions =
  smoothingPasses :: "nat option"
  smoothingRadius :: "nat option"
  verticalExaggeration :: "real option"
  meshSize :: "real option"
  decimationFactor :: "nat option"
  laplacianPasses :: "nat option"

record GridMesh =
  positions :: "real list"
  indices :: "nat list"
  normals :: "real list"

text \<open>A default of a destructuring pattern: \<open>{ field = d } = options\<close>.\<close>

definition orDefault :: "'a option \<Rightarrow> 'a \<Rightarrow> 'a" where
  "orDefault v d = (case v of None \<Rightarrow> d | Some x \<Rightarrow> x)"

text \<open>
  An assignment \<open>a[i] = v\<close> to a plain JavaScript array: inside the array it replaces the
  element, at or beyond the end the array grows. The slots it skips are holes
  (\<open>undefined\<close>); the model fills them with 0. A typed array (\<open>Float32Array\<close>,
  \<open>Uint32Array\<close>) has a fixed length and ignores a write outside it, which is what
  \<^const>\<open>list_update\<close> does.
\<close>

definition arraySet :: "real list \<Rightarrow> nat \<Rightarrow> real \<Rightarrow> real list" where
  "arraySet a i v =
     (if i < length a then a[i := v] else a @ replicate (i - length a) 0 @ [v])"

subsection \<open>Gaussian smoothing of the heightfield\<close>

text \<open>
  The kernel of \<open>smoothElevationData\<close>: the rows of weights
  \<open>exp (- (kx\<^sup>2 + ky\<^sup>2) / (2 \<sigma>\<^sup>2))\<close> for \<open>kx, ky = -radius, ..., radius\<close>, collected together with
  their sum, and then every entry divided by the sum.
\<close>

definition kernelWeight :: "real \<Rightarrow> int \<Rightarrow> int \<Rightarrow> real" where
  "kernelWeight sigma kx ky = exp (- real_of_int (kx * kx + ky * ky) / (2 * sigma * sigma))"

definition gaussianKernel :: "nat \<Rightarrow> real list list" where
  "gaussianKernel radius =
     (let sigma = real radius * 0.5 + 0.5;
          (kern, kernelSum) =
            fold (\<lambda>ky (kern, kernelSum).
                    (let (row, kernelSum) =
                           fold (\<lambda>kx (row, kernelSum).
                                   (let weight = kernelWeight sigma kx ky
                                    in (row @ [weight], kernelSum + weight)))
                             [- int radius .. int radius] ([], kernelSum)
                     in (kern @ [row], kernelSum)))
              [- int radius .. int radius] ([], 0)
      in map (map (\<lambda>weight. weight / kernelSum)) kern)"

text \<open>
  The weighted sum around the sample \<open>(x, y)\<close>: the body of the two kernel loops for the
  tap \<open>(kx, ky)\<close>, on the pair \<open>(sum, weightSum)\<close>, and the loops. A tap outside the grid
  is skipped. The read of \<open>current\<close> has no
  fallback (outside the array the source gets \<open>undefined\<close> and the sum becomes \<open>NaN\<close>); it
  is inside the array whenever \<open>width * height \<le> length current\<close>.
\<close>

definition tapStep ::
  "real list list \<Rightarrow> nat \<Rightarrow> nat \<Rightarrow> nat \<Rightarrow> real list \<Rightarrow> nat \<Rightarrow> nat \<Rightarrow> int \<Rightarrow> int
     \<Rightarrow> real \<times> real \<Rightarrow> real \<times> real" where
  "tapStep kern radius w h current x y ky kx =
     (\<lambda>(sum, weightSum).
        (let nx = int x + kx; ny = int y + ky in
         if nx \<ge> 0 \<and> nx < int w \<and> ny \<ge> 0 \<and> ny < int h
         then (let weight = kern ! nat (ky + int radius) ! nat (kx + int radius)
               in (sum + current ! nat (ny * int w + nx) * weight, weightSum + weight))
         else (sum, weightSum)))"

definition tapSums ::
  "real list list \<Rightarrow> nat \<Rightarrow> nat \<Rightarrow> nat \<Rightarrow> real list \<Rightarrow> nat \<Rightarrow> nat \<Rightarrow> real \<times> real" where
  "tapSums kern radius w h current x y =
     fold (\<lambda>ky acc. fold (tapStep kern radius w h current x y ky) [- int radius .. int radius] acc)
       [- int radius .. int radius] (0, 0)"


text \<open>One pass: every sample of \<open>next\<close> is written, then the buffers are swapped.\<close>

definition smoothPass ::
  "real list list \<Rightarrow> nat \<Rightarrow> nat \<Rightarrow> nat \<Rightarrow> real list \<times> real list \<Rightarrow> real list \<times> real list" where
  "smoothPass kern radius w h buffers =
     (case buffers of (current, next) \<Rightarrow>
        (let next =
               fold (\<lambda>y next.
                       fold (\<lambda>x next.
                               (let (sum, weightSum) = tapSums kern radius w h current x y
                                in arraySet next (y * w + x) (sum / weightSum)))
                         [0..<w] next)
                 [0..<h] next
         in (next, current)))"

text \<open>
  The recomputed minimum and maximum start from \<open>Infinity\<close> and \<open>-Infinity\<close>, which are
  not real numbers. For a non-empty array the loops give the least and the greatest
  sample; for an empty array the model keeps the given default.
\<close>

definition minOver :: "real list \<Rightarrow> real \<Rightarrow> real" where
  "minOver xs d = (case xs of [] \<Rightarrow> d | e # es \<Rightarrow> fold (\<lambda>elev newMin. min newMin elev) es e)"

definition maxOver :: "real list \<Rightarrow> real \<Rightarrow> real" where
  "maxOver xs d = (case xs of [] \<Rightarrow> d | e # es \<Rightarrow> fold (\<lambda>elev newMax. max newMax elev) es e)"

definition smoothElevationData :: "ElevationData \<Rightarrow> nat \<Rightarrow> nat \<Rightarrow> ElevationData" where
  "smoothElevationData data passes radius =
     (if passes = 0 then data
      else
        (let current = elevations data;
             next = replicate (length (elevations data)) 0;
             kern = gaussianKernel radius;
             (current, next) =
               fold (\<lambda>pass. smoothPass kern radius (width data) (height data))
                 [0..<passes] (current, next)
         in \<lparr>elevations = current, width = width data, height = height data,
              minElevation = minOver current (minElevation data),
              maxElevation = maxOver current (maxElevation data)\<rparr>))"

subsection \<open>The regular grid mesh\<close>

text \<open>
  \<open>calculateNormals\<close>: the face normal of every triangle is added to its three vertices,
  then every vertex that was touched gets its sum normalised.
\<close>

definition addNormal :: "real \<times> real \<times> real \<Rightarrow> nat \<Rightarrow> real list \<times> nat list \<Rightarrow> real list \<times> nat list" where
  "addNormal n idx st =
     (case (n, st) of ((nx, ny, nz), (nrm, counts)) \<Rightarrow>
        (nrm[idx * 3 := nrm ! (idx * 3) + nx,
             idx * 3 + 1 := nrm ! (idx * 3 + 1) + ny,
             idx * 3 + 2 := nrm ! (idx * 3 + 2) + nz],
         counts[idx := counts ! idx + 1]))"

definition accumulateFace :: "real list \<Rightarrow> nat list \<Rightarrow> nat \<Rightarrow> real list \<times> nat list \<Rightarrow> real list \<times> nat list" where
  "accumulateFace pos ind i st =
     (let i0 = ind ! i; i1 = ind ! (i + 1); i2 = ind ! (i + 2);
          ax = pos ! (i0 * 3); ay = pos ! (i0 * 3 + 1); az = pos ! (i0 * 3 + 2);
          bx = pos ! (i1 * 3); by = pos ! (i1 * 3 + 1); bz = pos ! (i1 * 3 + 2);
          cx = pos ! (i2 * 3); cy = pos ! (i2 * 3 + 1); cz = pos ! (i2 * 3 + 2);
          e1x = bx - ax; e1y = by - ay; e1z = bz - az;
          e2x = cx - ax; e2y = cy - ay; e2z = cz - az;
          nx = e1y * e2z - e1z * e2y;
          ny = e1z * e2x - e1x * e2z;
          nz = e1x * e2y - e1y * e2x
      in fold (addNormal (nx, ny, nz)) [i0, i1, i2] st)"

definition normalizeVertex :: "nat list \<Rightarrow> nat \<Rightarrow> real list \<Rightarrow> real list" where
  "normalizeVertex counts i nrm =
     (if counts ! i > 0
      then (let nx = nrm ! (i * 3); ny = nrm ! (i * 3 + 1); nz = nrm ! (i * 3 + 2);
                len = sqrt (nx * nx + ny * ny + nz * nz)
            in if len > 0
               then nrm[i * 3 := nx / len, i * 3 + 1 := ny / len, i * 3 + 2 := nz / len]
               else nrm)
      else nrm)"

definition calculateNormals :: "real list \<Rightarrow> nat list \<Rightarrow> nat \<Rightarrow> real list" where
  "calculateNormals pos ind vertexCount =
     (let (nrm, counts) =
            fold (accumulateFace pos ind) (map (\<lambda>k. 3 * k) [0..<(length ind + 2) div 3])
              (replicate (vertexCount * 3) 0, replicate vertexCount 0)
      in fold (normalizeVertex counts) [0..<vertexCount] nrm)"

text \<open>
  \<open>Math.ceil (n / d)\<close> for a positive integer \<open>d\<close>.
\<close>

definition ceilDiv :: "nat \<Rightarrow> nat \<Rightarrow> nat" where
  "ceilDiv n d = (n + d - 1) div d"

text \<open>The vertex loops of \<open>generateGridMesh\<close>: three writes into \<open>positions\<close> per vertex.\<close>

definition gridVertex ::
  "ElevationData \<Rightarrow> nat \<Rightarrow> real \<Rightarrow> real \<Rightarrow> nat \<Rightarrow> nat \<Rightarrow> nat \<Rightarrow> nat \<Rightarrow> real list \<Rightarrow> real list" where
  "gridVertex data decimation meshSz scaleFactor gridWidth gridHeight gy gx pos =
     (let halfSize = meshSz / 2;
          sx = min (gx * decimation) (width data - 1);
          sy = min (gy * decimation) (height data - 1);
          srcIdx = sy * width data + sx;
          vertIdx = gy * gridWidth + gx;
          elevation = (if srcIdx < length (elevations data) then elevations data ! srcIdx
                       else minElevation data)
      in pos[vertIdx * 3 := (real gx / (real gridWidth - 1)) * meshSz - halfSize,
             vertIdx * 3 + 1 := (real gy / (real gridHeight - 1)) * meshSz - halfSize,
             vertIdx * 3 + 2 := (elevation - minElevation data) * scaleFactor])"

text \<open>
  The index loops: six writes per cell, on the pair of the index array and the running
  \<open>triIdx\<close>.
\<close>

definition gridCell :: "nat \<Rightarrow> nat \<Rightarrow> nat \<Rightarrow> nat list \<times> nat \<Rightarrow> nat list \<times> nat" where
  "gridCell gridWidth gy gx st =
     (case st of (ind, triIdx) \<Rightarrow>
        (let topLeft = gy * gridWidth + gx;
             topRight = topLeft + 1;
             bottomLeft = (gy + 1) * gridWidth + gx;
             bottomRight = bottomLeft + 1
         in (ind[triIdx := topLeft, triIdx + 1 := bottomLeft, triIdx + 2 := topRight,
                 triIdx + 3 := topRight, triIdx + 4 := bottomLeft, triIdx + 5 := bottomRight],
             triIdx + 6)))"

text \<open>
  \<open>generateGridMesh\<close>. The result is \<open>None\<close> where the source returns no mesh. It throws
  a \<open>RangeError\<close> from a typed-array constructor when the requested length is infinite or
  negative: for a decimation factor of 0 on a heightfield with a column and a row both
  grid dimensions are \<open>Infinity\<close>, and for a grid without columns but with more than one
  row (or the converse) the triangle count is negative. A decimation factor of 0 on a
  heightfield without rows makes the grid height \<open>NaN\<close> (\<open>0 / 0\<close>): the arrays are then
  allocated with length 0 and no loop runs, so the mesh is empty. With rows but no column
  the grid width is \<open>NaN\<close> and the grid height \<open>Infinity\<close>: the allocations succeed, and the
  outer vertex loop \<open>gy < Infinity\<close> never ends. The decimation factor is a natural number
  here. Not modelled: the vertex coordinates of a grid with a single column or row
  (\<open>0 / 0\<close>). A width of 0 makes \<open>width - 1\<close> negative in the source and \<open>Math.min\<close>
  returns it; the read at the negative index falls back to \<open>minElevation\<close>, but such a
  grid has no vertex, so the loops do not run.
\<close>

definition generateGridMesh :: "ElevationData \<Rightarrow> MeshOptions \<Rightarrow> GridMesh option" where
  "generateGridMesh data options =
     (let verticalExag = orDefault (verticalExaggeration options) 1.5;
          meshSz = orDefault (meshSize options) 10;
          decimation = orDefault (decimationFactor options) 1;
          elevationRange = (if maxElevation data - minElevation data = 0 then 1
                            else maxElevation data - minElevation data);
          scaleFactor = (3 / elevationRange) * verticalExag
      in if decimation = 0
         then (if height data = 0 then Some \<lparr>positions = [], indices = [], normals = []\<rparr>
               else None)
         else
           (let gridWidth = ceilDiv (width data) decimation;
                gridHeight = ceilDiv (height data) decimation;
                vertexCount = gridWidth * gridHeight;
                triangleCount = (int gridWidth - 1) * (int gridHeight - 1) * 2
            in if triangleCount < 0 then None
               else
                 (let pos = replicate (vertexCount * 3) 0;
                      ind = replicate (nat (triangleCount * 3)) 0;
                      pos = fold (\<lambda>gy pos.
                                    fold (gridVertex data decimation meshSz scaleFactor
                                            gridWidth gridHeight gy)
                                      [0..<gridWidth] pos)
                              [0..<gridHeight] pos;
                      (ind, triIdx) =
                        fold (\<lambda>gy st. fold (gridCell gridWidth gy) [0..<gridWidth - 1] st)
                          [0..<gridHeight - 1] (ind, 0)
                  in Some \<lparr>positions = pos, indices = ind,
                            normals = calculateNormals pos ind vertexCount\<rparr>)))"

text \<open>
  The six indices the loops write for the cell \<open>(gx, gy)\<close>, and the triangle number \<open>k\<close> of
  an index array.
\<close>

definition cellIndices :: "nat \<Rightarrow> nat \<Rightarrow> nat \<Rightarrow> nat list" where
  "cellIndices gridWidth gy gx =
     [gy * gridWidth + gx, (gy + 1) * gridWidth + gx, gy * gridWidth + gx + 1,
      gy * gridWidth + gx + 1, (gy + 1) * gridWidth + gx, (gy + 1) * gridWidth + gx + 1]"

definition triangleAt :: "nat list \<Rightarrow> nat \<Rightarrow> nat \<times> nat \<times> nat" where
  "triangleAt ind k = (ind ! (3 * k), ind ! (3 * k + 1), ind ! (3 * k + 2))"

subsection \<open>Laplacian smoothing of the mesh\<close>

text \<open>
  One interior vertex: only \<open>next[idx * 3 + 2]\<close> is written. The reads of \<open>current\<close> are
  inside the array when it holds \<open>3 * gridWidth * gridHeight\<close> numbers; outside, the source
  reads \<open>undefined\<close> and writes \<open>NaN\<close>.
\<close>

definition laplacianVertex :: "real list \<Rightarrow> nat \<Rightarrow> real \<Rightarrow> nat \<Rightarrow> nat \<Rightarrow> real list \<Rightarrow> real list" where
  "laplacianVertex current gridWidth lambda gy gx next =
     (let idx = gy * gridWidth + gx;
          left = current ! ((idx - 1) * 3 + 2);
          right = current ! ((idx + 1) * 3 + 2);
          top = current ! ((idx - gridWidth) * 3 + 2);
          bottom = current ! ((idx + gridWidth) * 3 + 2);
          center = current ! (idx * 3 + 2);
          laplacian = (left + right + top + bottom) / 4 - center
      in next[idx * 3 + 2 := center + lambda * laplacian])"

definition laplacianPass ::
  "nat \<Rightarrow> nat \<Rightarrow> real \<Rightarrow> real list \<times> real list \<Rightarrow> real list \<times> real list" where
  "laplacianPass gridWidth gridHeight lambda buffers =
     (case buffers of (current, next) \<Rightarrow>
        (let next = current;
             next = fold (\<lambda>gy next.
                            fold (laplacianVertex current gridWidth lambda gy)
                              [1..<gridWidth - 1] next)
                      [1..<gridHeight - 1] next
         in (next, current)))"

definition applyLaplacianSmoothing ::
  "real list \<Rightarrow> nat list \<Rightarrow> nat \<Rightarrow> nat \<Rightarrow> nat \<Rightarrow> real \<Rightarrow> real list" where
  "applyLaplacianSmoothing pos ind gridWidth gridHeight passes lambda =
     (if passes = 0 then pos
      else
        (let current = pos;
             next = replicate (length pos) 0
         in fst (fold (\<lambda>pass. laplacianPass gridWidth gridHeight lambda) [0..<passes]
                   (current, next))))"

text \<open>
  The vertex \<open>v\<close> of a grid with \<open>gridWidth\<close> columns lies in row \<open>v div gridWidth\<close> and
  column \<open>v mod gridWidth\<close>; it is interior when both lie strictly between 0 and the last
  index.
\<close>

definition interiorVertex :: "nat \<Rightarrow> nat \<Rightarrow> nat \<Rightarrow> bool" where
  "interiorVertex gridWidth gridHeight v \<longleftrightarrow>
     1 \<le> v mod gridWidth \<and> v mod gridWidth < gridWidth - 1 \<and>
     1 \<le> v div gridWidth \<and> v div gridWidth < gridHeight - 1"

subsection \<open>The pipeline\<close>

definition generateTerrainMesh :: "ElevationData \<Rightarrow> MeshOptions \<Rightarrow> GridMesh option" where
  "generateTerrainMesh data options =
     (let smoothPasses = orDefault (smoothingPasses options) 1;
          smoothRadius = orDefault (smoothingRadius options) 1;
          lapPasses = orDefault (laplacianPasses options) 0;
          decimation = orDefault (decimationFactor options) 1;
          smoothedData = smoothElevationData data smoothPasses smoothRadius
      in case generateGridMesh smoothedData (options\<lparr>decimationFactor := Some decimation\<rparr>) of
           None \<Rightarrow> None
         | Some mesh \<Rightarrow>
             if lapPasses > 0
             then (let gridWidth = ceilDiv (width data) decimation;
                       gridHeight = ceilDiv (height data) decimation;
                       pos = applyLaplacianSmoothing (positions mesh) (indices mesh)
                               gridWidth gridHeight lapPasses 0.5
                   in Some \<lparr>positions = pos, indices = indices mesh,
                             normals = calculateNormals pos (indices mesh)
                                         (gridWidth * gridHeight)\<rparr>)
             else Some mesh)"

section \<open>The adaptive TIN\<close>

text \<open>
  A point of the TIN. The fields \<open>x\<close>, \<open>y\<close>, \<open>z\<close> of the source are \<open>tinX\<close>, \<open>tinY\<close>, \<open>tinZ\<close>
  here. Grid coordinates and indices are integers: for a width of 0 the corner
  \<open>width - 1\<close> is \<open>-1\<close>.
\<close>

record TINPoint =
  tinX :: int
  tinY :: int
  tinZ :: real
  originalIndex :: int

record TIN =
  points :: "TINPoint list"
  triangles :: "nat list"

text \<open>\<open>elevations[i] ?? d\<close>: the sample, or \<open>d\<close> where the array has none.\<close>

definition elevationOr :: "ElevationData \<Rightarrow> int \<Rightarrow> real \<Rightarrow> real" where
  "elevationOr data i d =
     (if 0 \<le> i \<and> i < int (length (elevations data)) then elevations data ! nat i else d)"

text \<open>
  The values of the counter of \<open>for (let x = start; x < stop; x += step)\<close>. The steps of
  the source are at least 1 (a step of 0 would not terminate).
\<close>

function stepsFrom :: "nat \<Rightarrow> nat \<Rightarrow> nat \<Rightarrow> nat list" where
  "stepsFrom step x stop =
     (if step = 0 \<or> stop \<le> x then [] else x # stepsFrom step (x + step) stop)"
  by pat_completeness auto
termination
  by (relation "measure (\<lambda>(step, x, stop). stop - x)") auto

subsection \<open>Delaunay triangulation (Bowyer-Watson)\<close>

type_synonym triangle = "nat \<times> nat \<times> nat"

definition inCircumcircle :: "point \<Rightarrow> point \<Rightarrow> point \<Rightarrow> point \<Rightarrow> bool" where
  "inCircumcircle p a b c =
     (let ax = fst a - fst p; ay = snd a - snd p;
          bx = fst b - fst p; by = snd b - snd p;
          cx = fst c - fst p; cy = snd c - snd p;
          det = (ax * ax + ay * ay) * (bx * cy - cx * by)
                - (bx * bx + by * by) * (ax * cy - cx * ay)
                + (cx * cx + cy * cy) * (ax * by - bx * ay);
          orient = (fst a - fst c) * (snd b - snd c) - (snd a - snd c) * (fst b - fst c)
      in if orient > 0 then det > 0 else det < 0)"

definition triangleEdges :: "triangle \<Rightarrow> (nat \<times> nat) list" where
  "triangleEdges t = (case t of (i, j, k) \<Rightarrow> [(i, j), (j, k), (k, i)])"

text \<open>
  One insertion. The source compares triangles as objects (\<open>tri === other\<close>,
  \<open>badTriangles.includes (t)\<close>): a triangle is identified here by its place in the list
  \<open>tris\<close>, and \<open>badTriangles\<close> is the list of the places of the bad triangles.
\<close>

definition insertPoint :: "point list \<Rightarrow> nat \<Rightarrow> triangle list \<Rightarrow> triangle list" where
  "insertPoint allPoints i tris =
     (let p = allPoints ! i;
          badTriangles =
            filter (\<lambda>t. case tris ! t of (ti, tj, tk) \<Rightarrow>
                      inCircumcircle p (allPoints ! ti) (allPoints ! tj) (allPoints ! tk))
              [0..<length tris];
          polygon =
            concat (map (\<lambda>t.
                      filter (\<lambda>edge.
                                \<not> list_ex (\<lambda>other. other \<noteq> t \<and>
                                      list_ex (\<lambda>oe. (fst edge = fst oe \<and> snd edge = snd oe) \<or>
                                                     (fst edge = snd oe \<and> snd edge = fst oe))
                                        (triangleEdges (tris ! other)))
                                    badTriangles)
                        (triangleEdges (tris ! t)))
                    badTriangles);
          kept = map (\<lambda>t. tris ! t) (filter (\<lambda>t. t \<notin> set badTriangles) [0..<length tris])
      in kept @ map (\<lambda>edge. (fst edge, snd edge, i)) polygon)"

text \<open>
  The bounding box starts from \<open>Infinity\<close> and \<open>-Infinity\<close> (see \<^const>\<open>minOver\<close>); it is
  computed only when there are at least three points.
\<close>

definition delaunayTriangulate :: "point list \<Rightarrow> nat list" where
  "delaunayTriangulate pts =
     (if length pts < 3 then []
      else
        (let minX = minOver (map fst pts) 0; minY = minOver (map snd pts) 0;
             maxX = maxOver (map fst pts) 0; maxY = maxOver (map snd pts) 0;
             dx = maxX - minX;
             dy = maxY - minY;
             deltaMax = max dx dy * 10;
             p1 = (minX - deltaMax, minY - deltaMax);
             p2 = (minX + dx / 2, maxY + deltaMax);
             p3 = (maxX + deltaMax, minY - deltaMax);
             allPoints = pts @ [p1, p2, p3];
             n = length pts;
             tris = [(n, n + 1, n + 2)];
             tris = fold (insertPoint allPoints) [0..<n] tris;
             tris = filter (\<lambda>t. case t of (i, j, k) \<Rightarrow> i < n \<and> j < n \<and> k < n) tris
         in fold (\<lambda>t result. case t of (i, j, k) \<Rightarrow> result @ [i, j, k]) tris []))"

subsection \<open>Point selection\<close>

text \<open>\<open>a.slice (0, e)\<close>: a negative end counts from the end of the array.\<close>

definition sliceTo :: "'a list \<Rightarrow> int \<Rightarrow> 'a list" where
  "sliceTo a e = (if e < 0 then take (nat (int (length a) + e)) a else take (nat e) a)"

definition pointAt :: "ElevationData \<Rightarrow> int \<Rightarrow> int \<Rightarrow> int \<Rightarrow> TINPoint" where
  "pointAt data px py idx =
     \<lparr>tinX = px, tinY = py, tinZ = elevationOr data idx (minElevation data), originalIndex = idx\<rparr>"

text \<open>The importance of the interior sample \<open>(x, y)\<close>, pushed when it is significant.\<close>

definition importance :: "ElevationData \<Rightarrow> real \<Rightarrow> nat \<Rightarrow> nat \<Rightarrow> (nat \<times> real) list" where
  "importance data errorThreshold py px =
     (let idx = int (py * width data + px);
          center = elevationOr data idx (minElevation data);
          left = elevationOr data (idx - 1) center;
          right = elevationOr data (idx + 1) center;
          top = elevationOr data (idx - int (width data)) center;
          bottom = elevationOr data (idx + int (width data)) center;
          laplacian = \<bar>(left + right + top + bottom) / 4 - center\<bar>;
          dx = (right - left) / 2;
          dy = (bottom - top) / 2;
          gradient = sqrt (dx * dx + dy * dy);
          score = laplacian + gradient * 0.5
      in if score > errorThreshold * 0.1 then [(nat idx, score)] else [])"

text \<open>
  The body of the loops of the fallback grid, on the pair of the selected points and the
  set of their indices. The \<open>break\<close> of the source leaves the inner loop once the budget is
  reached; from then on the test holds in every later round, so skipping the round is the
  same.
\<close>

definition gridPoint ::
  "ElevationData \<Rightarrow> int \<Rightarrow> nat \<Rightarrow> nat \<Rightarrow> TINPoint list \<times> int set \<Rightarrow> TINPoint list \<times> int set" where
  "gridPoint data maxPoints py px st =
     (case st of (selectedPoints, existingSet) \<Rightarrow>
        if int (length selectedPoints) \<ge> maxPoints then (selectedPoints, existingSet)
        else
          (let idx = int (py * width data + px)
           in if idx \<notin> existingSet
              then (selectedPoints @ [pointAt data (int px) (int py) idx], insert idx existingSet)
              else (selectedPoints, existingSet)))"

definition generateAdaptiveTIN :: "ElevationData \<Rightarrow> real \<Rightarrow> int \<Rightarrow> TIN" where
  "generateAdaptiveTIN data maxError maxPoints =
     (let w = width data; h = height data;
          elevationRange = (if maxElevation data - minElevation data = 0 then 1
                            else maxElevation data - minElevation data);
          errorThreshold = maxError * elevationRange;
          selectedPoints =
            [pointAt data 0 0 0,
             pointAt data (int w - 1) 0 (int w - 1),
             pointAt data 0 (int h - 1) ((int h - 1) * int w),
             pointAt data (int w - 1) (int h - 1) ((int h - 1) * int w + int w - 1)];
          edgeStep = max 1 (max w h div 20);
          selectedPoints =
            fold (\<lambda>px selectedPoints.
                    selectedPoints @
                      [pointAt data (int px) 0 (int px),
                       pointAt data (int px) (int h - 1) ((int h - 1) * int w + int px)])
              (stepsFrom edgeStep edgeStep (w - 1)) selectedPoints;
          selectedPoints =
            fold (\<lambda>py selectedPoints.
                    selectedPoints @
                      [pointAt data 0 (int py) (int py * int w),
                       pointAt data (int w - 1) (int py) (int py * int w + int w - 1)])
              (stepsFrom edgeStep edgeStep (h - 1)) selectedPoints;
          importanceScores =
            fold (\<lambda>py scores.
                    fold (\<lambda>px scores. scores @ importance data errorThreshold py px)
                      [1..<w - 1] scores)
              [1..<h - 1] [];
          importanceScores = sort_key (\<lambda>s. - snd s) importanceScores;
          remainingSlots = maxPoints - int (length selectedPoints);
          topPoints = sliceTo importanceScores remainingSlots;
          selectedPoints =
            fold (\<lambda>s selectedPoints.
                    selectedPoints @
                      [pointAt data (int (fst s mod w)) (int (fst s div w)) (int (fst s))])
              topPoints selectedPoints;
          selectedPoints =
            (if real (length selectedPoints) < real_of_int maxPoints * 0.8
             then (let gridStep =
                         max 2 (nat \<lfloor>sqrt (real (w * h)
                                  / real_of_int (maxPoints - int (length selectedPoints)))\<rfloor>);
                       existingSet = set (map originalIndex selectedPoints)
                   in fst (fold (\<lambda>py st.
                                   fold (gridPoint data maxPoints py)
                                     (stepsFrom gridStep gridStep (w - 1)) st)
                             (stepsFrom gridStep gridStep (h - 1))
                             (selectedPoints, existingSet)))
             else selectedPoints);
          points2D = map (\<lambda>p. (real_of_int (tinX p), real_of_int (tinY p))) selectedPoints
      in \<lparr>points = selectedPoints, triangles = delaunayTriangulate points2D\<rparr>)"

text \<open>The four corners of the grid, in the order the source lists them.\<close>

definition corners :: "ElevationData \<Rightarrow> (int \<times> int) list" where
  "corners data =
     [(0, 0), (int (width data) - 1, 0), (0, int (height data) - 1),
      (int (width data) - 1, int (height data) - 1)]"

section \<open>The STL exporter (stlExporter.ts)\<close>

text \<open>
  A three.js \<open>BufferGeometry\<close>, as far as the exporter uses it: the flat array of the
  position attribute (item size 3) and the optional index. The library is not part of the
  repository; what the exporter relies on is modelled from its documented behaviour:
  \<open>getX\<close>, \<open>getY\<close>, \<open>getZ\<close> read \<open>array[3 i]\<close>, \<open>array[3 i + 1]\<close>, \<open>array[3 i + 2]\<close>, and
  \<open>count\<close> is the length of the array divided by the item size. Every position array this
  program builds holds a multiple of 3 numbers.
\<close>

record BufferGeometry =
  position :: "real list"
  index :: "nat list option"

definition getX :: "real list \<Rightarrow> nat \<Rightarrow> real" where
  "getX pos i = pos ! (i * 3)"

definition getY :: "real list \<Rightarrow> nat \<Rightarrow> real" where
  "getY pos i = pos ! (i * 3 + 1)"

definition getZ :: "real list \<Rightarrow> nat \<Rightarrow> real" where
  "getZ pos i = pos ! (i * 3 + 2)"

definition positionCount :: "real list \<Rightarrow> nat" where
  "positionCount pos = length pos div 3"

text \<open>\<open>geometry.scale (s, s, s)\<close> multiplies every coordinate by \<open>s\<close>.\<close>

definition scaleGeometry :: "BufferGeometry \<Rightarrow> real \<Rightarrow> BufferGeometry" where
  "scaleGeometry geometry s = geometry\<lparr>position := map (\<lambda>v. v * s) (position geometry)\<rparr>"

text \<open>The loops \<open>for (let i = 0; i < indices.count; i += 3)\<close> visit \<open>0, 3, 6, ...\<close>.\<close>

definition triangleStarts :: "nat \<Rightarrow> nat list" where
  "triangleStarts n = map (\<lambda>k. 3 * k) [0..<(n + 2) div 3]"

subsection \<open>Boundary edges\<close>

text \<open>
  The \<open>Map\<close> of \<open>getBoundaryEdges\<close> keeps its entries in insertion order, so it is an
  association list. Its string key \<open>"min-max"\<close> stands for the ordered pair of the two
  vertex numbers; the entry holds the count and the six coordinates of the edge as it was
  first seen.
\<close>

type_synonym edgeMap = "((nat \<times> nat) \<times> (nat \<times> real list)) list"

definition countEdge :: "real list \<Rightarrow> nat \<times> nat \<Rightarrow> edgeMap \<Rightarrow> edgeMap" where
  "countEdge pos e edgeCount =
     (case e of (v1, v2) \<Rightarrow>
        (let key = (if v1 < v2 then (v1, v2) else (v2, v1));
             edgeCount =
               (if map_of edgeCount key = None
                then edgeCount @ [(key, (0, [getX pos v1, getY pos v1, getZ pos v1,
                                            getX pos v2, getY pos v2, getZ pos v2]))]
                else edgeCount)
         in map (\<lambda>(k, (cnt, vs)). if k = key then (k, (cnt + 1, vs)) else (k, (cnt, vs)))
              edgeCount))"

definition getBoundaryEdges :: "BufferGeometry \<Rightarrow> real list list" where
  "getBoundaryEdges geometry =
     (case index geometry of
        None \<Rightarrow> []
      | Some ind \<Rightarrow>
          (let edgeCount =
                 fold (\<lambda>i edgeCount.
                         (let a = ind ! i; b = ind ! (i + 1); c = ind ! (i + 2)
                          in fold (countEdge (position geometry)) [(a, b), (b, c), (c, a)]
                               edgeCount))
                   (triangleStarts (length ind)) []
           in map (\<lambda>(k, (cnt, vs)). vs) (filter (\<lambda>(k, (cnt, vs)). cnt = 1) edgeCount)))"

subsection \<open>Extrusion to a solid\<close>

text \<open>
  \<open>createSolidMesh\<close>. Without an index the geometry is returned as it is. The triangles are
  lists of nine numbers; the result is the geometry of their concatenation, without an
  index. (The vertex normals the source computes for it at the end are another attribute
  and leave the positions alone.) The least z starts from \<open>Infinity\<close>: see \<^const>\<open>minOver\<close>;
  the default plays no role when the geometry has a vertex.
\<close>

definition createSolidMesh :: "BufferGeometry \<Rightarrow> real \<Rightarrow> BufferGeometry" where
  "createSolidMesh topGeometry baseThickness =
     (case index topGeometry of
        None \<Rightarrow> topGeometry
      | Some ind \<Rightarrow>
          (let pos = position topGeometry;
               minZ = minOver (map (getZ pos) [0..<positionCount pos]) 0;
               baseLevel = minZ - baseThickness;
               triangles = [];
               triangles =
                 fold (\<lambda>i triangles.
                         (let a = ind ! i; b = ind ! (i + 1); c = ind ! (i + 2)
                          in triangles @ [[getX pos a, getY pos a, getZ pos a,
                                           getX pos b, getY pos b, getZ pos b,
                                           getX pos c, getY pos c, getZ pos c]]))
                   (triangleStarts (length ind)) triangles;
               triangles =
                 fold (\<lambda>i triangles.
                         (let a = ind ! i; b = ind ! (i + 1); c = ind ! (i + 2)
                          in triangles @ [[getX pos a, getY pos a, baseLevel,
                                           getX pos c, getY pos c, baseLevel,
                                           getX pos b, getY pos b, baseLevel]]))
                   (triangleStarts (length ind)) triangles;
               boundaryEdges = getBoundaryEdges topGeometry;
               triangles =
                 fold (\<lambda>edge triangles.
                         (let x1 = edge ! 0; y1 = edge ! 1; z1 = edge ! 2;
                              x2 = edge ! 3; y2 = edge ! 4; z2 = edge ! 5
                          in triangles @ [[x1, y1, z1, x2, y2, z2, x1, y1, baseLevel],
                                          [x2, y2, z2, x2, y2, baseLevel, x1, y1, baseLevel]]))
                   boundaryEdges triangles;
               vertices = fold (\<lambda>tri vertices. vertices @ tri) triangles []
           in \<lparr>position = vertices, index = None\<rparr>))"

subsection \<open>Binary STL\<close>

type_synonym byte = "8 word"

text \<open>
  A \<open>DataView\<close> over the buffer. A setter that would write past the end throws a
  \<open>RangeError\<close>: the result \<open>None\<close>. Multi-byte values are written little-endian, as the
  source asks for.
\<close>

primrec storeBytes :: "byte list \<Rightarrow> nat \<Rightarrow> byte list \<Rightarrow> byte list" where
  "storeBytes view offset [] = view"
| "storeBytes view offset (b # bs) = storeBytes (view[offset := b]) (Suc offset) bs"

definition leBytes16 :: "16 word \<Rightarrow> byte list" where
  "leBytes16 w = [ucast w, ucast (drop_bit 8 w)]"

definition leBytes32 :: "32 word \<Rightarrow> byte list" where
  "leBytes32 w = [ucast w, ucast (drop_bit 8 w), ucast (drop_bit 16 w), ucast (drop_bit 24 w)]"

definition setUint8 :: "byte list \<Rightarrow> nat \<Rightarrow> byte \<Rightarrow> byte list option" where
  "setUint8 view offset v =
     (if offset + 1 \<le> length view then Some (storeBytes view offset [v]) else None)"

definition setUint16 :: "byte list \<Rightarrow> nat \<Rightarrow> 16 word \<Rightarrow> byte list option" where
  "setUint16 view offset v =
     (if offset + 2 \<le> length view then Some (storeBytes view offset (leBytes16 v)) else None)"

definition setUint32 :: "byte list \<Rightarrow> nat \<Rightarrow> 32 word \<Rightarrow> byte list option" where
  "setUint32 view offset v =
     (if offset + 4 \<le> length view then Some (storeBytes view offset (leBytes32 v)) else None)"

text \<open>
  \<open>setFloat32\<close> rounds the number to a 32-bit float and stores its four bytes. The
  rounding and the bit pattern are the platform's; they are the parameter \<open>f32\<close> of the
  model, which fixes only that four bytes are written at the offset.
\<close>

definition setFloat32 :: "(real \<Rightarrow> 32 word) \<Rightarrow> byte list \<Rightarrow> nat \<Rightarrow> real \<Rightarrow> byte list option" where
  "setFloat32 f32 view offset v = setUint32 view offset (f32 v)"

text \<open>A loop whose body can throw.\<close>

primrec foldOption :: "('a \<Rightarrow> 's \<Rightarrow> 's option) \<Rightarrow> 'a list \<Rightarrow> 's \<Rightarrow> 's option" where
  "foldOption f [] s = Some s"
| "foldOption f (x # xs) s = (case f x s of None \<Rightarrow> None | Some s' \<Rightarrow> foldOption f xs s')"

text \<open>
  \<open>new THREE.Vector3 (positions.getX (i), ...)\<close>: a read beyond the array is \<open>undefined\<close>,
  and the constructor replaces an \<open>undefined\<close> argument by 0.
\<close>

definition vertexAt :: "real list \<Rightarrow> nat \<Rightarrow> real \<times> real \<times> real" where
  "vertexAt pos i =
     ((if i * 3 < length pos then getX pos i else 0),
      (if i * 3 + 1 < length pos then getY pos i else 0),
      (if i * 3 + 2 < length pos then getZ pos i else 0))"

definition subVectors :: "real \<times> real \<times> real \<Rightarrow> real \<times> real \<times> real \<Rightarrow> real \<times> real \<times> real" where
  "subVectors a b =
     (case (a, b) of ((ax, ay, az), (bx, by, bz)) \<Rightarrow> (ax - bx, ay - by, az - bz))"

definition crossVectors :: "real \<times> real \<times> real \<Rightarrow> real \<times> real \<times> real \<Rightarrow> real \<times> real \<times> real" where
  "crossVectors a b =
     (case (a, b) of ((ax, ay, az), (bx, by, bz)) \<Rightarrow>
        (ay * bz - az * by, az * bx - ax * bz, ax * by - ay * bx))"

text \<open>\<open>Vector3.normalize\<close> divides by \<open>length () || 1\<close>: the zero vector stays zero.\<close>

definition normalize :: "real \<times> real \<times> real \<Rightarrow> real \<times> real \<times> real" where
  "normalize v =
     (case v of (x, y, z) \<Rightarrow>
        (let len = sqrt (x * x + y * y + z * z);
             d = (if len = 0 then 1 else len)
         in (x * (1 / d), y * (1 / d), z * (1 / d))))"

definition header :: string where
  "header = ''TerrainTiles STL Export''"

text \<open>The body of the triangle loop, on the pair of the buffer and the running offset.\<close>

definition writeTriangle ::
  "(real \<Rightarrow> 32 word) \<Rightarrow> real list \<Rightarrow> nat \<Rightarrow> byte list \<times> nat \<Rightarrow> (byte list \<times> nat) option" where
  "writeTriangle f32 pos i st =
     (case st of (view, offset) \<Rightarrow>
        (let i0 = i * 3; i1 = i * 3 + 1; i2 = i * 3 + 2;
             v0 = vertexAt pos i0; v1 = vertexAt pos i1; v2 = vertexAt pos i2;
             edge1 = subVectors v1 v0;
             edge2 = subVectors v2 v0;
             normal = normalize (crossVectors edge1 edge2)
         in do {
              view \<leftarrow> setFloat32 f32 view offset (fst normal);
              view \<leftarrow> setFloat32 f32 view (offset + 4) (fst (snd normal));
              view \<leftarrow> setFloat32 f32 view (offset + 8) (snd (snd normal));
              offset \<leftarrow> Some (offset + 12);
              view \<leftarrow> setFloat32 f32 view offset (fst v0);
              view \<leftarrow> setFloat32 f32 view (offset + 4) (fst (snd v0));
              view \<leftarrow> setFloat32 f32 view (offset + 8) (snd (snd v0));
              offset \<leftarrow> Some (offset + 12);
              view \<leftarrow> setFloat32 f32 view offset (fst v1);
              view \<leftarrow> setFloat32 f32 view (offset + 4) (fst (snd v1));
              view \<leftarrow> setFloat32 f32 view (offset + 8) (snd (snd v1));
              offset \<leftarrow> Some (offset + 12);
              view \<leftarrow> setFloat32 f32 view offset (fst v2);
              view \<leftarrow> setFloat32 f32 view (offset + 4) (fst (snd v2));
              view \<leftarrow> setFloat32 f32 view (offset + 8) (snd (snd v2));
              offset \<leftarrow> Some (offset + 12);
              view \<leftarrow> setUint16 view offset 0;
              Some (view, offset + 2)
            }))"

text \<open>
  \<open>generateBinarySTL\<close>. The triangle count is \<open>positions.count / 3\<close>, a fraction when the
  vertex count is not a multiple of 3: then the buffer length \<open>84 + triangleCount * 50\<close> is
  cut to an integer, the count field gets the integer part, and the loop runs once more
  for the incomplete triangle. The result is the content of the buffer, or \<open>None\<close> for a
  \<open>RangeError\<close>.
\<close>

definition generateBinarySTL :: "(real \<Rightarrow> 32 word) \<Rightarrow> BufferGeometry \<Rightarrow> byte list option" where
  "generateBinarySTL f32 geometry =
     (let pos = position geometry;
          vertexCount = positionCount pos;
          bufferLength = 80 + 4 + (vertexCount * 50) div 3;
          view = replicate bufferLength 0
      in do {
           view \<leftarrow> foldOption
                     (\<lambda>i view. setUint8 view i
                                  (if i < length header then of_char (header ! i) else 0))
                     [0..<80] view;
           view \<leftarrow> setUint32 view 80 (of_nat (vertexCount div 3));
           (view, offset) \<leftarrow> foldOption (writeTriangle f32 pos)
                                  [0..<(vertexCount + 2) div 3] (view, 84);
           Some view
         })"

text \<open>
  The layout of a binary STL file as the specification words it, to compare the buffer
  with: an 80-byte header padded with zeros, the triangle count as a little-endian
  \<open>u32\<close>, and 50 bytes per triangle: the normal (the normalised cross product of
  \<open>v1 - v0\<close> and \<open>v2 - v0\<close>) and the three vertices as little-endian 32-bit floats, then a
  two-byte attribute count of 0.
\<close>

definition headerBytes :: "byte list" where
  "headerBytes = map of_char header @ replicate (80 - length header) 0"

definition facetBytes :: "(real \<Rightarrow> 32 word) \<Rightarrow> real list \<Rightarrow> nat \<Rightarrow> byte list" where
  "facetBytes f32 pos k =
     (let v0 = vertexAt pos (k * 3); v1 = vertexAt pos (k * 3 + 1); v2 = vertexAt pos (k * 3 + 2);
          normal = normalize (crossVectors (subVectors v1 v0) (subVectors v2 v0))
      in concat (map (\<lambda>v. leBytes32 (f32 v))
           [fst normal, fst (snd normal), snd (snd normal),
            fst v0, fst (snd v0), snd (snd v0),
            fst v1, fst (snd v1), snd (snd v1),
            fst v2, fst (snd v2), snd (snd v2)]) @ [0, 0])"

definition stlLayout :: "(real \<Rightarrow> 32 word) \<Rightarrow> real list \<Rightarrow> nat \<Rightarrow> byte list" where
  "stlLayout f32 pos n =
     headerBytes @ leBytes32 (of_nat n) @ concat (map (facetBytes f32 pos) [0..<n])"

subsection \<open>The export pipeline\<close>

record TerrainExportOptions =
  tileSize :: real
  baseThickness :: real
  exportExaggeration :: real
  smoothingLevel :: "nat option"
  filename :: "string option"

text \<open>
  \<open>exportTerrainToSTL\<close> up to the solid (\<open>terrainSolid\<close>) and up to the bytes it hands to the
  download; the download itself is outside the model. The field \<open>verticalExaggeration\<close> of
  the export options is called \<open>exportExaggeration\<close> here, since the mesh options have a
  field of the same name.
\<close>

definition terrainSolid :: "ElevationData \<Rightarrow> TerrainExportOptions \<Rightarrow> BufferGeometry option" where
  "terrainSolid elevationData options =
     (let level = orDefault (smoothingLevel options) 1
      in case generateTerrainMesh elevationData
                \<lparr>smoothingPasses = Some level, smoothingRadius = Some 1,
                  verticalExaggeration = Some (exportExaggeration options),
                  meshSize = Some 10, decimationFactor = Some 1,
                  laplacianPasses = Some (if level > 0 then 1 else 0)\<rparr> of
           None \<Rightarrow> None
         | Some mesh \<Rightarrow>
             (let geometry = \<lparr>position = positions mesh, index = Some (indices mesh)\<rparr>;
                  scaleFactor = tileSize options / 10;
                  geometry = scaleGeometry geometry scaleFactor
              in Some (createSolidMesh geometry (baseThickness options))))"

definition exportTerrainToSTL ::
  "(real \<Rightarrow> 32 word) \<Rightarrow> ElevationData \<Rightarrow> TerrainExportOptions \<Rightarrow> byte list option" where
  "exportTerrainToSTL f32 elevationData options =
     (case terrainSolid elevationData options of
        None \<Rightarrow> None
      | Some solidGeometry \<Rightarrow> generateBinarySTL f32 solidGeometry)"

text \<open>
  The flat 2 by 2 heightfield of the end-to-end scenario, and the triangles of its solid
  for a tile of 10 mm on a base of 5 mm: the two triangles of the top, their mirror images
  at the base level \<open>-5\<close>, and two wall triangles for each of the four boundary edges.
\<close>

definition flatHeightfield :: ElevationData where
  "flatHeightfield = \<lparr>elevations = [0, 0, 0, 0], width = 2, height = 2, minElevation = 0, maxElevation = 0\<rparr>"

definition flatTop :: "real list list" where
  "flatTop = [[-5, -5, 0, -5, 5, 0, 5, -5, 0], [5, -5, 0, -5, 5, 0, 5, 5, 0]]"

definition flatBottom :: "real list list" where
  "flatBottom = [[-5, -5, -5, 5, -5, -5, -5, 5, -5], [5, -5, -5, 5, 5, -5, -5, 5, -5]]"

definition flatWalls :: "real list list" where
  "flatWalls =
     [[-5, -5, 0, -5, 5, 0, -5, -5, -5], [-5, 5, 0, -5, 5, -5, -5, -5, -5],
      [5, -5, 0, -5, -5, 0, 5, -5, -5], [-5, -5, 0, -5, -5, -5, 5, -5, -5],
      [-5, 5, 0, 5, 5, 0, -5, 5, -5], [5, 5, 0, 5, 5, -5, -5, 5, -5],
      [5, 5, 0, 5, -5, 0, 5, 5, -5], [5, -5, 0, 5, -5, -5, 5, 5, -5]]"

definition flatSolid :: "real list list" where
  "flatSolid = flatTop @ flatBottom @ flatWalls"

section \<open>Properties of the contour generator\<close>












subsection \<open>Every segment ends up in exactly one path\<close>






lemma connectSegments_example:
  "connectSegments [((0, 0), (1, 0)), ((5, 5), (6, 6)), ((1, 0), (2, 0))] 3 3 =
     [[(0, 0), (1 / 2, 0), (1, 0)], [(5 / 2, 5 / 2), (3, 3)]]"
  by (simp add: connectSegments_def connectStep_def findConnecting_def pointsEqual_def
      tolerance_def upt_rec)

section \<open>Properties of the mesh generator\<close>

subsection \<open>Gaussian smoothing stays within the range of the samples\<close>





lemma upto_length: "length [- int r .. int r] = 2 * r + 1"
  by simp




















subsection \<open>Laplacian smoothing leaves everything but the interior heights alone\<close>

lemma fold_nth_frame:
  assumes "\<And>x a. x \<in> set xs \<Longrightarrow> f x a ! k = a ! k"
  shows "fold f xs a ! k = a ! k"
  using assms by (induction xs arbitrary: a) simp_all

lemma fold_length_frame:
  assumes "\<And>x a. x \<in> set xs \<Longrightarrow> length (f x a) = length a"
  shows "length (fold f xs a) = length a"
  using assms by (induction xs arbitrary: a) simp_all

lemma laplacianVertex_nth:
  assumes "k \<noteq> (gy * gw + gx) * 3 + 2"
  shows "laplacianVertex current gw lam gy gx next ! k = next ! k"
  using assms by (simp add: laplacianVertex_def Let_def)

lemma laplacianVertex_length:
  "length (laplacianVertex current gw lam gy gx next) = length next"
  by (simp add: laplacianVertex_def Let_def)

lemma interior_index:
  assumes "1 \<le> gx" "gx < gw - 1" "1 \<le> gy" "gy < gh - 1"
  shows "interiorVertex gw gh (gy * gw + gx)"
proof -
  have "gx < gw" using assms by simp
  then have "(gy * gw + gx) mod gw = gx" "(gy * gw + gx) div gw = gy" by simp_all
  then show ?thesis using assms by (simp add: interiorVertex_def)
qed

lemma laplacianPass_frame:
  assumes "c < 3" "c \<noteq> 2 \<or> \<not> interiorVertex gw gh v"
  shows "fst (laplacianPass gw gh lam (current, next)) ! (v * 3 + c) = current ! (v * 3 + c)"
proof -
  have neq: "v * 3 + c \<noteq> (gy * gw + gx) * 3 + 2"
    if "gy \<in> set [1..<gh - 1]" "gx \<in> set [1..<gw - 1]" for gy gx
  proof
    assume e: "v * 3 + c = (gy * gw + gx) * 3 + 2"
    have c: "c = 2" using e assms(1) by presburger
    with e have "v = gy * gw + gx" by simp
    with interior_index [of gx gw gy gh] that have "interiorVertex gw gh v" by simp
    with c assms(2) show False by simp
  qed
  have inner: "fold (laplacianVertex current gw lam gy) [1..<gw - 1] a ! (v * 3 + c) = a ! (v * 3 + c)"
    if "gy \<in> set [1..<gh - 1]" for gy a
    by (rule fold_nth_frame) (rule laplacianVertex_nth, rule neq [OF that])
  have "fold (\<lambda>gy. fold (laplacianVertex current gw lam gy) [1..<gw - 1]) [1..<gh - 1] current
          ! (v * 3 + c) = current ! (v * 3 + c)"
    by (rule fold_nth_frame) (rule inner)
  then show ?thesis by (simp add: laplacianPass_def Let_def)
qed

lemma laplacianPass_length:
  "length (fst (laplacianPass gw gh lam (current, next))) = length current"
proof -
  have inner: "length (fold (laplacianVertex current gw lam gy) [1..<gw - 1] a) = length a" for gy a
    by (rule fold_length_frame) (rule laplacianVertex_length)
  have "length (fold (\<lambda>gy. fold (laplacianVertex current gw lam gy) [1..<gw - 1]) [1..<gh - 1] current)
          = length current"
    by (rule fold_length_frame) (rule inner)
  then show ?thesis by (simp add: laplacianPass_def Let_def)
qed

lemma laplacianPasses_frame:
  assumes "c < 3" "c \<noteq> 2 \<or> \<not> interiorVertex gw gh v"
  shows "fst (fold (\<lambda>pass. laplacianPass gw gh lam) ps (current, nxt)) ! (v * 3 + c)
          = current ! (v * 3 + c) \<and>
        length (fst (fold (\<lambda>pass. laplacianPass gw gh lam) ps (current, nxt))) = length current"
proof (induction ps arbitrary: current nxt)
  case Nil
  show ?case by simp
next
  case (Cons p ps)
  obtain cur' nxt' where st: "laplacianPass gw gh lam (current, nxt) = (cur', nxt')"
    by fastforce
  from laplacianPass_frame [OF assms, of lam current nxt]
    laplacianPass_length [of gw gh lam current nxt] st
  have "cur' ! (v * 3 + c) = current ! (v * 3 + c)" "length cur' = length current" by simp_all
  with Cons.IH [of cur' nxt'] st show ?case by simp
qed


text \<open>
  Claim C4. Whatever the mesh, its dimensions, the number of passes and \<open>lambda\<close>,
  \<open>applyLaplacianSmoothing\<close> returns an array of the same length in which component \<open>c\<close> of
  vertex \<open>v\<close> (the number at \<open>v * 3 + c\<close>) is the one of the input unless it is the z
  coordinate (\<open>c = 2\<close>) of an interior vertex: x and y of every vertex and the whole position
  of every vertex of the first or last row or column are unchanged.
\<close>

theorem laplacian_frame:
  assumes "c < 3" "c \<noteq> 2 \<or> \<not> interiorVertex gridWidth gridHeight v"
  shows "applyLaplacianSmoothing pos ind gridWidth gridHeight passes lambda ! (v * 3 + c)
           = pos ! (v * 3 + c) \<and>
         length (applyLaplacianSmoothing pos ind gridWidth gridHeight passes lambda) = length pos"
  using laplacianPasses_frame [OF assms, of lambda "[0..<passes]" pos "replicate (length pos) 0"]
  by (simp add: applyLaplacianSmoothing_def Let_def)


theorem laplacian_frame_witness:
  "applyLaplacianSmoothing
      [0, 0, 1, 1, 0, 2, 2, 0, 3, 0, 1, 4, 1, 1, 50, 2, 1, 6, 0, 2, 7, 1, 2, 8, 2, 2, 9]
      [] 3 3 2 0.5 ! 11 = 4 \<and>
   applyLaplacianSmoothing
      [0, 0, 1, 1, 0, 2, 2, 0, 3, 0, 1, 4, 1, 1, 50, 2, 1, 6, 0, 2, 7, 1, 2, 8, 2, 2, 9]
      [] 3 3 2 0.5 ! 12 = 1"
  using laplacian_frame [of 2 3 3 3
      "[0, 0, 1, 1, 0, 2, 2, 0, 3, 0, 1, 4, 1, 1, 50, 2, 1, 6, 0, 2, 7, 1, 2, 8, 2, 2, 9]" "[]" 2 "0.5"]
    laplacian_frame [of 0 3 3 4
      "[0, 0, 1, 1, 0, 2, 2, 0, 3, 0, 1, 4, 1, 1, 50, 2, 1, 6, 0, 2, 7, 1, 2, 8, 2, 2, 9]" "[]" 2 "0.5"]
  by (simp add: interiorVertex_def)

subsection \<open>The size and the triangles of the grid mesh\<close>

text \<open>
  Six consecutive writes into an array replace a block of six elements; a row of cells
  and then the rows of the grid fill the index array block by block.
\<close>

lemma update_at_end:
  assumes "n = t + length ys" "n < length xs"
  shows "(take t xs @ ys @ drop n xs)[n := v] = take t xs @ (ys @ [v]) @ drop (Suc n) xs"
proof -
  have t: "length (take t xs) = t" using assms by simp
  have d: "drop n xs = xs ! n # drop (Suc n) xs" using assms(2) by (simp add: Cons_nth_drop_Suc)
  have "(take t xs @ ys @ drop n xs)[n := v] = take t xs @ (ys @ drop n xs)[length ys := v]"
    using assms(1) t by (simp add: list_update_append)
  also have "(ys @ drop n xs)[length ys := v] = ys @ (drop n xs)[0 := v]"
    by (simp add: list_update_append)
  also have "(drop n xs)[0 := v] = v # drop (Suc n) xs"
    by (subst d) simp
  finally show ?thesis by simp
qed

lemma write6:
  assumes "t + 6 \<le> length xs"
  shows "xs[t := a, t + 1 := b, t + 2 := c, t + 3 := d, t + 4 := e, t + 5 := f]
           = take t xs @ [a, b, c, d, e, f] @ drop (t + 6) xs"
proof -
  have 1: "xs[t := a] = take t xs @ [a] @ drop (Suc t) xs"
    using update_at_end [of t t "[]" xs a] assms by simp
  have 2: "xs[t := a, Suc t := b] = take t xs @ [a, b] @ drop (Suc (Suc t)) xs"
    unfolding 1 using update_at_end [of "Suc t" t "[a]" xs b] assms by simp
  have 3: "xs[t := a, Suc t := b, Suc (Suc t) := c]
             = take t xs @ [a, b, c] @ drop (Suc (Suc (Suc t))) xs"
    unfolding 2 using update_at_end [of "Suc (Suc t)" t "[a, b]" xs c] assms by simp
  have 4: "xs[t := a, Suc t := b, Suc (Suc t) := c, Suc (Suc (Suc t)) := d]
             = take t xs @ [a, b, c, d] @ drop (Suc (Suc (Suc (Suc t)))) xs"
    unfolding 3 using update_at_end [of "Suc (Suc (Suc t))" t "[a, b, c]" xs d] assms by simp
  have 5: "xs[t := a, Suc t := b, Suc (Suc t) := c, Suc (Suc (Suc t)) := d,
              Suc (Suc (Suc (Suc t))) := e]
             = take t xs @ [a, b, c, d, e] @ drop (Suc (Suc (Suc (Suc (Suc t))))) xs"
    unfolding 4 using update_at_end [of "Suc (Suc (Suc (Suc t)))" t "[a, b, c, d]" xs e] assms
    by simp
  have 6: "xs[t := a, Suc t := b, Suc (Suc t) := c, Suc (Suc (Suc t)) := d,
              Suc (Suc (Suc (Suc t))) := e, Suc (Suc (Suc (Suc (Suc t)))) := f]
             = take t xs @ [a, b, c, d, e, f] @ drop (Suc (Suc (Suc (Suc (Suc (Suc t)))))) xs"
    unfolding 5
    using update_at_end [of "Suc (Suc (Suc (Suc (Suc t))))" t "[a, b, c, d, e]" xs f] assms
    by simp
  have s: "t + 1 = Suc t" "t + 2 = Suc (Suc t)" "t + 3 = Suc (Suc (Suc t))"
    "t + 4 = Suc (Suc (Suc (Suc t)))" "t + 5 = Suc (Suc (Suc (Suc (Suc t))))"
    "t + 6 = Suc (Suc (Suc (Suc (Suc (Suc t)))))" by simp_all
  show ?thesis unfolding s by (rule 6)
qed

lemma gridCell_blit:
  "t + 6 \<le> length ind \<Longrightarrow>
   gridCell gw gy gx (ind, t) = (take t ind @ cellIndices gw gy gx @ drop (t + 6) ind, t + 6)"
  using write6 [of t ind] by (simp add: gridCell_def Let_def cellIndices_def)


lemma gridRow_blit:
  "t + 6 * m \<le> length ind \<Longrightarrow>
   fold (gridCell gw gy) [0..<m] (ind, t) =
     (take t ind @ concat (map (cellIndices gw gy) [0..<m]) @ drop (t + 6 * m) ind, t + 6 * m)"
proof (induction m)
  case 0
  show ?case by simp
next
  case (Suc m)
  let ?done = "concat (map (cellIndices gw gy) [0..<m])"
  let ?ind = "take t ind @ ?done @ drop (t + 6 * m) ind"
  have len: "length ?done = 6 * m"
    by (simp add: length_concat comp_def cellIndices_def sum_list_triv)
  have t: "t + 6 * m + 6 \<le> length ?ind" using Suc.prems len by simp
  have tk: "take (t + 6 * m) ?ind = take t ind @ ?done" using Suc.prems len by simp
  have dr: "drop (t + 6 * m + 6) ?ind = drop (t + 6 * Suc m) ind"
    using Suc.prems len by (simp add: add.commute add.left_commute)
  from Suc have "fold (gridCell gw gy) [0..<Suc m] (ind, t) = gridCell gw gy m (?ind, t + 6 * m)"
    by simp
  also have "\<dots> = (take (t + 6 * m) ?ind @ cellIndices gw gy m @ drop (t + 6 * m + 6) ?ind,
                    t + 6 * m + 6)"
    by (rule gridCell_blit [OF t])
  finally show ?case unfolding tk dr by simp
qed

lemma gridRows_blit:
  "t + 6 * m * n \<le> length ind \<Longrightarrow>
   fold (\<lambda>gy st. fold (gridCell gw gy) [0..<m] st) [0..<n] (ind, t) =
     (take t ind @ concat (map (\<lambda>gy. concat (map (cellIndices gw gy) [0..<m])) [0..<n])
        @ drop (t + 6 * m * n) ind, t + 6 * m * n)"
proof (induction n)
  case 0
  show ?case by simp
next
  case (Suc n)
  let ?done = "concat (map (\<lambda>gy. concat (map (cellIndices gw gy) [0..<m])) [0..<n])"
  let ?ind = "take t ind @ ?done @ drop (t + 6 * m * n) ind"
  have len: "length ?done = 6 * m * n"
    by (simp add: length_concat comp_def cellIndices_def sum_list_triv)
  have t: "t + 6 * m * n + 6 * m \<le> length ?ind" using Suc.prems len by simp
  have tk: "take (t + 6 * m * n) ?ind = take t ind @ ?done" using Suc.prems len by simp
  have dr: "drop (t + 6 * m * n + 6 * m) ?ind = drop (t + 6 * m * Suc n) ind"
    using Suc.prems len by (simp add: add.commute add.left_commute)
  from Suc have "fold (\<lambda>gy st. fold (gridCell gw gy) [0..<m] st) [0..<Suc n] (ind, t)
      = fold (gridCell gw n) [0..<m] (?ind, t + 6 * m * n)"
    by simp
  also have "\<dots> = (take (t + 6 * m * n) ?ind @ concat (map (cellIndices gw n) [0..<m])
                      @ drop (t + 6 * m * n + 6 * m) ?ind, t + 6 * m * n + 6 * m)"
    by (rule gridRow_blit [OF t])
  finally show ?case unfolding tk dr by simp
qed

lemma nth_concat_uniform:
  assumes "\<And>ys. ys \<in> set xss \<Longrightarrow> length ys = k" "i < length xss" "j < k"
  shows "concat xss ! (i * k + j) = xss ! i ! j"
  using assms
proof (induction xss arbitrary: i)
  case Nil
  then show ?case by simp
next
  case (Cons ys xss)
  have k: "length ys = k" using Cons.prems(1) by simp
  show ?case
  proof (cases i)
    case 0
    then show ?thesis using k Cons.prems(3) by (simp add: nth_append)
  next
    case (Suc i')
    have "concat (ys # xss) ! (i * k + j) = concat xss ! (i' * k + j)"
      using Suc k by (simp add: nth_append)
    also have "\<dots> = xss ! i' ! j"
      using Cons.prems Suc by (intro Cons.IH) auto
    finally show ?thesis using Suc by simp
  qed
qed


lemma cells_nth:
  assumes "gy < n" "gx < m" "j < 6"
  shows "concat (map (\<lambda>gy. concat (map (cellIndices gw gy) [0..<m])) [0..<n]) ! (6 * (gy * m + gx) + j)
           = cellIndices gw gy gx ! j"
proof -
  let ?row = "\<lambda>gy. concat (map (cellIndices gw gy) [0..<m])"
  have rowlen: "length (?row y) = 6 * m" for y
    by (simp add: length_concat comp_def cellIndices_def sum_list_triv)
  have inner: "gx * 6 + j < 6 * m" using assms by simp
  have idx: "6 * (gy * m + gx) + j = gy * (6 * m) + (gx * 6 + j)" by (simp add: algebra_simps)
  have "concat (map ?row [0..<n]) ! (6 * (gy * m + gx) + j)
               = concat (map ?row [0..<n]) ! (gy * (6 * m) + (gx * 6 + j))" by (simp only: idx)
  also have "\<dots> = map ?row [0..<n] ! gy ! (gx * 6 + j)"
    using assms(1) inner rowlen by (intro nth_concat_uniform) auto
  also have "\<dots> = ?row gy ! (gx * 6 + j)" using assms(1) by simp
  also have "\<dots> = map (cellIndices gw gy) [0..<m] ! gx ! j"
    using assms(2,3) by (intro nth_concat_uniform) (auto simp: cellIndices_def)
  also have "\<dots> = cellIndices gw gy gx ! j" using assms(2) by simp
  finally show ?thesis .
qed

lemma cells_triangles:
  assumes "gy < n" "gx < m"
  shows "triangleAt (concat (map (\<lambda>gy. concat (map (cellIndices gw gy) [0..<m])) [0..<n]))
           (2 * (gy * m + gx)) = (gy * gw + gx, (gy + 1) * gw + gx, gy * gw + gx + 1)"
    and "triangleAt (concat (map (\<lambda>gy. concat (map (cellIndices gw gy) [0..<m])) [0..<n]))
           (2 * (gy * m + gx) + 1) = (gy * gw + gx + 1, (gy + 1) * gw + gx, (gy + 1) * gw + gx + 1)"
proof -
  let ?C = "concat (map (\<lambda>gy. concat (map (cellIndices gw gy) [0..<m])) [0..<n])"
  have e: "3 * (2 * (gy * m + gx)) = 6 * (gy * m + gx) + 0"
    "3 * (2 * (gy * m + gx)) + 1 = 6 * (gy * m + gx) + 1"
    "3 * (2 * (gy * m + gx)) + 2 = 6 * (gy * m + gx) + 2"
    "3 * (2 * (gy * m + gx) + 1) = 6 * (gy * m + gx) + 3"
    "3 * (2 * (gy * m + gx) + 1) + 1 = 6 * (gy * m + gx) + 4"
    "3 * (2 * (gy * m + gx) + 1) + 2 = 6 * (gy * m + gx) + 5"
    by simp_all
  note c = cells_nth [OF assms, of _ gw]
  show "triangleAt ?C (2 * (gy * m + gx)) = (gy * gw + gx, (gy + 1) * gw + gx, gy * gw + gx + 1)"
    unfolding triangleAt_def e using c [of 0] c [of 1] c [of 2]
    by (simp add: cellIndices_def)
  show "triangleAt ?C (2 * (gy * m + gx) + 1)
          = (gy * gw + gx + 1, (gy + 1) * gw + gx, (gy + 1) * gw + gx + 1)"
    unfolding triangleAt_def e using c [of 3] c [of 4] c [of 5]
    by (simp add: cellIndices_def numeral_3_eq_3 eval_nat_numeral)
qed

lemma gridVertex_length:
  "length (gridVertex data d ms sf gw gh gy gx pos) = length pos"
  by (simp add: gridVertex_def Let_def)

lemma gridVertices_length:
  "length (fold (\<lambda>gy pos. fold (gridVertex data d ms sf gw gh gy) xs pos) ys pos) = length pos"
proof -
  have inner: "length (fold (gridVertex data d ms sf gw gh gy) xs a) = length a" for gy a
    by (rule fold_length_frame) (rule gridVertex_length)
  show ?thesis by (rule fold_length_frame) (rule inner)
qed

text \<open>
  Claim C5. For an \<open>N\<close> by \<open>N\<close> heightfield with \<open>N \<ge> 2\<close> and a decimation factor of 1
  (given or by default), \<open>generateGridMesh\<close> returns a mesh with \<open>3 * N * N\<close> position numbers
  (\<open>N * N\<close> vertices) and \<open>3 * 2 * (N - 1) * (N - 1)\<close> indices (\<open>2 * (N - 1) * (N - 1)\<close>
  triangles); the two triangles of the cell \<open>(gx, gy)\<close> are numbers \<open>2 * (gy * (N - 1) + gx)\<close>
  and the next one, and they are (topLeft, bottomLeft, topRight) and
  (topRight, bottomLeft, bottomRight).
\<close>

theorem grid_mesh_size:
  assumes "2 \<le> N" "width data = N" "height data = N"
    "orDefault (decimationFactor options) 1 = 1"
  shows "\<exists>mesh. generateGridMesh data options = Some mesh \<and>
           length (positions mesh) = 3 * (N * N) \<and>
           length (indices mesh) = 3 * (2 * ((N - 1) * (N - 1))) \<and>
           (\<forall>gy < N - 1. \<forall>gx < N - 1.
              triangleAt (indices mesh) (2 * (gy * (N - 1) + gx))
                = (gy * N + gx, (gy + 1) * N + gx, gy * N + gx + 1) \<and>
              triangleAt (indices mesh) (2 * (gy * (N - 1) + gx) + 1)
                = (gy * N + gx + 1, (gy + 1) * N + gx, (gy + 1) * N + gx + 1))"
proof -
  let ?C = "concat (map (\<lambda>gy. concat (map (cellIndices N gy) [0..<N - 1])) [0..<N - 1])"
  have pred: "int N - 1 = int (N - 1)" using assms(1) by simp
  have "6 * (int (N - 1) * int (N - 1)) = int (6 * (N - 1) * (N - 1))" by simp
  then have nf: "nat (6 * ((int N - 1) * (int N - 1))) = 6 * (N - 1) * (N - 1)"
    unfolding pred by (simp only: nat_int)
  have nonneg: "\<not> (int N - 1) * (int N - 1) * 2 < 0" using assms(1) by simp
  have ind: "fold (\<lambda>gy st. fold (gridCell N gy) [0..<N - 1] st) [0..<N - 1]
               (replicate (6 * (N - 1) * (N - 1)) 0, 0)
             = (?C, 6 * (N - 1) * (N - 1))"
    using gridRows_blit [of 0 "N - 1" "N - 1" "replicate (6 * (N - 1) * (N - 1)) 0" N]
    by simp
  have clen: "length ?C = 6 * (N - 1) * (N - 1)"
    by (simp add: length_concat comp_def cellIndices_def sum_list_triv)
  have mesh: "generateGridMesh data options = Some \<lparr>positions =
        fold (\<lambda>gy pos. fold (gridVertex data 1 (orDefault (meshSize options) 10)
                ((3 / (if maxElevation data - minElevation data = 0 then 1
                       else maxElevation data - minElevation data))
                 * orDefault (verticalExaggeration options) 1.5) N N gy) [0..<N] pos)
          [0..<N] (replicate (N * N * 3) 0),
        indices = ?C,
        normals = calculateNormals
         (fold (\<lambda>gy pos. fold (gridVertex data 1 (orDefault (meshSize options) 10)
                ((3 / (if maxElevation data - minElevation data = 0 then 1
                       else maxElevation data - minElevation data))
                 * orDefault (verticalExaggeration options) 1.5) N N gy) [0..<N] pos)
          [0..<N] (replicate (N * N * 3) 0)) ?C (N * N)\<rparr>"
    using nonneg ind assms(2,3,4)
    by (simp add: generateGridMesh_def Let_def ceilDiv_def nf)
  show ?thesis
    unfolding mesh
    using cells_triangles [of _ "N - 1" _ "N - 1" N] clen
    by (simp add: gridVertices_length)
qed



theorem grid_mesh_size_witness:
  "\<exists>mesh. generateGridMesh
       \<lparr>elevations = [1, 2, 3, 4], width = 2, height = 2, minElevation = 1, maxElevation = 4\<rparr>
       \<lparr>smoothingPasses = None, smoothingRadius = None, verticalExaggeration = None,
         meshSize = None, decimationFactor = Some 1, laplacianPasses = None\<rparr> = Some mesh \<and>
     length (positions mesh) = 12 \<and> length (indices mesh) = 6 \<and>
     triangleAt (indices mesh) 0 = (0, 2, 1) \<and> triangleAt (indices mesh) 1 = (1, 2, 3)"
  using grid_mesh_size [of 2 "\<lparr>elevations = [1, 2, 3, 4], width = 2, height = 2, minElevation = 1, maxElevation = 4\<rparr>"
       "\<lparr>smoothingPasses = None, smoothingRadius = None, verticalExaggeration = None,
         meshSize = None, decimationFactor = Some 1, laplacianPasses = None\<rparr>"]
  by (auto simp: orDefault_def)

section \<open>Properties of the STL exporter\<close>

subsection \<open>The buffer has the STL layout\<close>

lemma storeBytes_length [simp]: "length (storeBytes view offset bs) = length view"
  by (induction bs arbitrary: view offset) simp_all

lemma storeBytes_append:
  "storeBytes view offset (bs @ cs) = storeBytes (storeBytes view offset bs) (offset + length bs) cs"
  by (induction bs arbitrary: view offset) simp_all

lemma storeBytes_merge:
  "length bs = k \<Longrightarrow> storeBytes (storeBytes view offset bs) (offset + k) cs
     = storeBytes view offset (bs @ cs)"
  by (simp add: storeBytes_append)

lemma storeBytes_merge':
  "length bs = k \<Longrightarrow> storeBytes (storeBytes view offset bs) (k + offset) cs
     = storeBytes view offset (bs @ cs)"
  by (simp add: storeBytes_append add.commute)

lemma storeBytes_blit:
  "offset + length bs \<le> length view \<Longrightarrow>
   storeBytes view offset bs = take offset view @ bs @ drop (offset + length bs) view"
proof (induction bs arbitrary: view offset)
  case Nil
  show ?case by simp
next
  case (Cons b bs)
  have lt: "offset < length view" using Cons.prems by simp
  have "storeBytes view offset (b # bs) = storeBytes (view[offset := b]) (Suc offset) bs" by simp
  also have "\<dots> = take (Suc offset) (view[offset := b]) @ bs
                     @ drop (Suc offset + length bs) (view[offset := b])"
    using Cons.prems by (intro Cons.IH) simp
  also have "take (Suc offset) (view[offset := b]) = take offset view @ [b]"
    using lt by (simp add: take_Suc_conv_app_nth)
  also have "drop (Suc offset + length bs) (view[offset := b]) = drop (offset + length (b # bs)) view"
    by simp
  finally show ?case by simp
qed

lemma leBytes32_length [simp]: "length (leBytes32 w) = 4"
  by (simp add: leBytes32_def)

lemma leBytes16_length [simp]: "length (leBytes16 w) = 2"
  by (simp add: leBytes16_def)

lemma leBytes16_zero: "leBytes16 0 = [0, 0]"
  by (simp add: leBytes16_def)

lemma facetBytes_length [simp]: "length (facetBytes f32 pos k) = 50"
  by (simp add: facetBytes_def Let_def)

lemma writeTriangle_blit:
  assumes "offset + 50 \<le> length view"
  shows "writeTriangle f32 pos i (view, offset)
           = Some (take offset view @ facetBytes f32 pos i @ drop (offset + 50) view, offset + 50)"
proof -
  have "writeTriangle f32 pos i (view, offset)
          = Some (storeBytes view offset (facetBytes f32 pos i), offset + 50)"
    unfolding facetBytes_def leBytes16_zero [symmetric]
    using assms
    by (simp add: writeTriangle_def Let_def setFloat32_def setUint32_def setUint16_def
        storeBytes_merge storeBytes_merge')
  then show ?thesis using storeBytes_blit [of offset "facetBytes f32 pos i" view] assms by simp
qed

lemma writeTriangles_blit:
  "offset + 50 * length ks \<le> length view \<Longrightarrow>
   foldOption (writeTriangle f32 pos) ks (view, offset)
     = Some (take offset view @ concat (map (facetBytes f32 pos) ks)
               @ drop (offset + 50 * length ks) view, offset + 50 * length ks)"
proof (induction ks arbitrary: view offset)
  case Nil
  show ?case by simp
next
  case (Cons k ks)
  let ?view = "take offset view @ facetBytes f32 pos k @ drop (offset + 50) view"
  have fit: "offset + 50 \<le> length view" using Cons.prems by simp
  have len: "length ?view = length view" using fit by simp
  have rest: "offset + 50 + 50 * length ks \<le> length ?view" using Cons.prems len by simp
  have tk: "take (offset + 50) ?view = take offset view @ facetBytes f32 pos k"
    using fit by simp
  have e: "offset + 50 + 50 * length ks = offset + 50 * length (k # ks)" by simp
  have dr: "drop (offset + 50 + 50 * length ks) ?view = drop (offset + 50 * length (k # ks)) view"
    using fit Cons.prems by (simp add: ac_simps)
  have "foldOption (writeTriangle f32 pos) (k # ks) (view, offset)
          = foldOption (writeTriangle f32 pos) ks (?view, offset + 50)"
    by (simp add: writeTriangle_blit [OF fit])
  also have "\<dots> = Some (take (offset + 50) ?view @ concat (map (facetBytes f32 pos) ks)
                           @ drop (offset + 50 + 50 * length ks) ?view,
                         offset + 50 + 50 * length ks)"
    by (rule Cons.IH [OF rest])
  finally have F: "foldOption (writeTriangle f32 pos) (k # ks) (view, offset)
      = Some (take (offset + 50) ?view @ concat (map (facetBytes f32 pos) ks)
                @ drop (offset + 50 + 50 * length ks) ?view, offset + 50 + 50 * length ks)" .
  have dr': "drop (offset + 50 * length (k # ks)) ?view = drop (offset + 50 * length (k # ks)) view"
    using dr unfolding e .
  show ?case by (simp only: F tk e dr' list.map concat.simps append_assoc)
qed

lemma header_loop:
  "k \<le> length view \<Longrightarrow>
   foldOption (\<lambda>i view. setUint8 view i (g i)) [0..<k] view = Some (map g [0..<k] @ drop k view)"
proof (induction k)
  case 0
  show ?case by simp
next
  case (Suc k)
  have fo: "foldOption f (xs @ [x]) s = (case foldOption f xs s of None \<Rightarrow> None | Some s' \<Rightarrow> f x s')"
    for f :: "nat \<Rightarrow> byte list \<Rightarrow> byte list option" and xs x s
    by (induction xs arbitrary: s) (simp_all split: option.splits)
  have "(map g [0..<k] @ drop k view)[k := g k] = map g [0..<k] @ (drop k view)[0 := g k]"
    by (simp add: list_update_append)
  also have "(drop k view)[0 := g k] = g k # drop (Suc k) view"
    using Suc.prems by (simp add: Cons_nth_drop_Suc [symmetric])
  finally have upd: "(map g [0..<k] @ drop k view)[k := g k] = map g [0..<Suc k] @ drop (Suc k) view"
    by simp
  from Suc show ?case by (simp add: fo setUint8_def upd)
qed


lemma padded_map:
  assumes "length h \<le> n"
  shows "map (\<lambda>i. if i < length h then f (h ! i) else z) [0..<n] = map f h @ replicate (n - length h) z"
proof -
  have "[0..<n] = [0..<length h] @ [length h..<n]"
    using assms by (metis le_add_diff_inverse upt_add_eq_append zero_le)
  then have "map (\<lambda>i. if i < length h then f (h ! i) else z) [0..<n]
      = map (\<lambda>i. if i < length h then f (h ! i) else z) [0..<length h]
        @ map (\<lambda>i. if i < length h then f (h ! i) else z) [length h..<n]" by simp
  also have "map (\<lambda>i. if i < length h then f (h ! i) else z) [0..<length h] = map f h"
    by (rule nth_equalityI) simp_all
  also have "map (\<lambda>i. if i < length h then f (h ! i) else z) [length h..<n]
      = replicate (n - length h) z"
    by (rule nth_equalityI) simp_all
  finally show ?thesis .
qed

lemma headerBytes_length [simp]: "length headerBytes = 80"
  by (simp add: headerBytes_def header_def)

lemma stlLayout_length: "length (stlLayout f32 pos n) = 84 + 50 * n"
  by (simp add: stlLayout_def length_concat comp_def sum_list_triv)

lemma generateBinarySTL_layout:
  assumes "length (position g) = 9 * n"
  shows "generateBinarySTL f32 g = Some (stlLayout f32 (position g) n)"
proof -
  let ?pos = "position g"
  let ?g = "\<lambda>i. if i < length header then of_char (header ! i) else (0::byte)"
  let ?view0 = "replicate (84 + 50 * n) (0::byte)"
  let ?view1 = "headerBytes @ replicate (4 + 50 * n) (0::byte)"
  let ?view2 = "headerBytes @ leBytes32 (of_nat n) @ replicate (50 * n) (0::byte)"
  have cnt: "positionCount ?pos = 3 * n" using assms by (simp add: positionCount_def)
  have blen: "80 + 4 + (3 * n * 50) div 3 = 84 + 50 * n" by simp
  have loops: "(3 * n + 2) div 3 = n" "3 * n div 3 = n" by simp_all
  have hb: "map ?g [0..<80] = headerBytes"
    unfolding headerBytes_def by (rule padded_map) (simp add: header_def)
  have s1: "foldOption (\<lambda>i view. setUint8 view i (?g i)) [0..<80] ?view0 = Some ?view1"
    using header_loop [of 80 ?view0 ?g] by (simp add: hb)
  have s2: "setUint32 ?view1 80 (of_nat n) = Some ?view2"
    using storeBytes_blit [of 80 "leBytes32 (of_nat n)" ?view1]
    by (simp add: setUint32_def)
  have s3: "foldOption (writeTriangle f32 ?pos) [0..<n] (?view2, 84)
      = Some (stlLayout f32 ?pos n, 84 + 50 * n)"
    using writeTriangles_blit [of 84 "[0..<n]" ?view2 f32 ?pos]
    by (simp add: stlLayout_def)
  show ?thesis
    unfolding generateBinarySTL_def Let_def cnt blen loops
    by (simp only: s1 s2 s3 bind.bind_lunit case_prod_conv)
qed


lemma chunk_of_concat:
  assumes "\<And>ys. ys \<in> set xss \<Longrightarrow> length ys = k" "i < length xss"
  shows "take k (drop (i * k) (concat xss)) = xss ! i"
  using assms
proof (induction xss arbitrary: i)
  case Nil
  then show ?case by simp
next
  case (Cons ys xss)
  have k: "length ys = k" using Cons.prems(1) by simp
  show ?case
  proof (cases i)
    case 0
    then show ?thesis using k by simp
  next
    case (Suc i')
    have "take k (drop (i * k) (concat (ys # xss))) = take k (drop (i' * k) (concat xss))"
      using Suc k by simp
    also have "\<dots> = xss ! i'"
      using Cons.prems Suc by (intro Cons.IH) auto
    finally show ?thesis using Suc by simp
  qed
qed

text \<open>
  Claim C2. A solid mesh is a triangle soup: \<open>n\<close> triangles are \<open>9 * n\<close> numbers. For every
  such geometry \<open>generateBinarySTL\<close> does not throw, and its buffer has length
  \<open>84 + 50 * n\<close>: the 80 bytes of the zero-padded header, the count \<open>n\<close> as a little-endian
  \<open>u32\<close> at offset 80 (\<open>n\<close> modulo \<open>2\<^sup>3\<^sup>2\<close>), and at offset \<open>84 + 50 * k\<close> the 50 bytes of
  triangle \<open>k\<close> (12 of the normal, 36 of the vertices, 2 zero bytes).
\<close>

theorem stl_size_law:
  assumes "length (position solid) = 9 * n"
  shows "\<exists>bytes. generateBinarySTL f32 solid = Some bytes \<and>
           length bytes = 84 + 50 * n \<and>
           bytes = stlLayout f32 (position solid) n \<and>
           take 80 bytes = headerBytes \<and>
           take 4 (drop 80 bytes) = leBytes32 (of_nat n) \<and>
           (\<forall>k < n. take 50 (drop (84 + 50 * k) bytes) = facetBytes f32 (position solid) k)"
proof -
  let ?F = "facetBytes f32 (position solid)"
  have facet: "take 50 (drop (84 + 50 * k) (stlLayout f32 (position solid) n)) = ?F k"
    if "k < n" for k
  proof -
    have "drop (84 + 50 * k) (stlLayout f32 (position solid) n)
            = drop (k * 50) (concat (map ?F [0..<n]))"
      by (simp add: stlLayout_def mult.commute)
    moreover have "take 50 (drop (k * 50) (concat (map ?F [0..<n]))) = map ?F [0..<n] ! k"
      using that by (intro chunk_of_concat) auto
    ultimately show ?thesis using that by simp
  qed
  have "take 80 (stlLayout f32 (position solid) n) = headerBytes"
    and "take 4 (drop 80 (stlLayout f32 (position solid) n)) = leBytes32 (of_nat n)"
    by (simp_all add: stlLayout_def)
  with facet show ?thesis
    by (simp add: generateBinarySTL_layout [OF assms] stlLayout_length)
qed


theorem stl_size_law_witness:
  "\<exists>bytes. generateBinarySTL (\<lambda>v. 0) \<lparr>position = [0, 0, 0, 1, 0, 0, 0, 1, 0], index = None\<rparr>
      = Some bytes \<and> length bytes = 134 \<and> take 4 (drop 80 bytes) = [1, 0, 0, 0]"
  using stl_size_law [of "\<lparr>position = [0, 0, 0, 1, 0, 0, 0, 1, 0], index = None\<rparr>" 1 "\<lambda>v. 0"]
  by (auto simp: leBytes32_def)

text \<open>
  Every solid that \<open>createSolidMesh\<close> builds from an indexed geometry is such a triangle
  soup: two triangles for each triangle of the top and two for each boundary edge.
\<close>

lemma total_length_concat:
  "sum_list (map length (concat (map f xs))) = sum_list (map (\<lambda>x. sum_list (map length (f x))) xs)"
  by (induction xs) simp_all

lemma createSolidMesh_soup:
  assumes "index g = Some ind"
  shows "length (position (createSolidMesh g t))
           = 9 * (2 * length (triangleStarts (length ind)) + 2 * length (getBoundaryEdges g))"
  using assms
  by (simp add: createSolidMesh_def Let_def fold_push_map fold_push_concat length_concat
      comp_def sum_list_triv total_length_concat)

text \<open>
  The hypothesis is needed. When the number of vertices is not a multiple of 3 (possible
  only for a geometry without index, which \<open>createSolidMesh\<close> returns unchanged), the buffer
  is too short for the last, incomplete triangle and a \<open>DataView\<close> setter throws.
\<close>

lemma writeTriangle_fits:
  assumes "writeTriangle f32 pos i (view, offset) = Some r"
  shows "offset + 50 \<le> length view"
  using assms
  by (auto simp: writeTriangle_def Let_def setFloat32_def setUint32_def setUint16_def
      bind_eq_Some_conv split: if_splits)


lemma foldOption_snoc:
  "foldOption f (xs @ [x]) s = (case foldOption f xs s of None \<Rightarrow> None | Some s' \<Rightarrow> f x s')"
  by (induction xs arbitrary: s) (simp_all split: option.splits)

lemma writeTriangles_Some:
  assumes "offset + 50 * length ks \<le> length view"
  shows "\<exists>view'. foldOption (writeTriangle f32 pos) ks (view, offset)
                    = Some (view', offset + 50 * length ks) \<and> length view' = length view"
proof -
  have "length (concat (map (facetBytes f32 pos) ks)) = 50 * length ks"
    by (simp add: length_concat comp_def sum_list_triv)
  then have "length (take offset view @ concat (map (facetBytes f32 pos) ks)
                @ drop (offset + 50 * length ks) view) = length view"
    using assms by simp
  with writeTriangles_blit [OF assms, of f32 pos] show ?thesis by blast
qed

lemma div3_bounds:
  assumes "k mod 3 \<noteq> (0::nat)"
  shows "(k + 2) div 3 = Suc (k div 3)" "84 + 50 * (k div 3) \<le> 84 + (k * 50) div 3"
    "84 + (k * 50) div 3 < 84 + 50 * (k div 3) + 50"
  using assms by arith+


lemma generateBinarySTL_RangeError:
  assumes "length (position g) = 3 * k" "k mod 3 \<noteq> 0"
  shows "generateBinarySTL f32 g = None"
proof -
  let ?pos = "position g"
  let ?q = "k div 3"
  let ?g = "\<lambda>i. if i < length header then of_char (header ! i) else (0::byte)"
  define B where "B = 84 + (k * 50) div 3"
  define view0 where "view0 = replicate B (0::byte)"
  define view1 where "view1 = map ?g [0..<80] @ drop 80 view0"
  define view2 where "view2 = storeBytes view1 80 (leBytes32 (of_nat ?q))"
  have cnt: "positionCount ?pos = k" using assms(1) by (simp add: positionCount_def)
  have B: "80 + 4 + (k * 50) div 3 = B" by (simp add: B_def)
  have loops: "[0..<(k + 2) div 3] = [0..<?q] @ [?q]"
    unfolding div3_bounds(1) [OF assms(2)] by simp
  have lo: "84 + 50 * ?q \<le> B" unfolding B_def by (rule div3_bounds(2) [OF assms(2)])
  have hi: "B < 84 + 50 * ?q + 50" unfolding B_def by (rule div3_bounds(3) [OF assms(2)])
  have len0: "length view0 = B" by (simp add: view0_def)
  have B84: "84 \<le> B" by (simp add: B_def)
  have s1: "foldOption (\<lambda>i view. setUint8 view i (?g i)) [0..<80] view0 = Some view1"
    unfolding view1_def by (rule header_loop) (use len0 B84 in simp)
  have len1: "length view1 = B" using len0 B84 by (simp add: view1_def)
  have s2: "setUint32 view1 80 (of_nat ?q) = Some view2"
    using len1 B84 by (simp add: setUint32_def view2_def)
  have len2: "length view2 = B" using len1 by (simp add: view2_def)
  obtain view3 where s3: "foldOption (writeTriangle f32 ?pos) [0..<?q] (view2, 84)
      = Some (view3, 84 + 50 * ?q)" and len3: "length view3 = B"
    using writeTriangles_Some [of 84 "[0..<?q]" view2 f32 ?pos] lo len2 by auto
  have s4: "writeTriangle f32 ?pos ?q (view3, 84 + 50 * ?q) = None"
  proof (rule ccontr)
    assume "writeTriangle f32 ?pos ?q (view3, 84 + 50 * ?q) \<noteq> None"
    then obtain r where "writeTriangle f32 ?pos ?q (view3, 84 + 50 * ?q) = Some r" by auto
    from writeTriangle_fits [OF this] len3 hi show False by simp
  qed
  have s5: "foldOption (writeTriangle f32 ?pos) [0..<(k + 2) div 3] (view2, 84) = None"
    unfolding loops by (simp add: foldOption_snoc s3 s4)
  show ?thesis
    unfolding generateBinarySTL_def Let_def cnt B view0_def [symmetric]
    by (simp only: s1 s2 s5 bind.bind_lunit bind.bind_lzero)
qed


subsection \<open>The flat tile, end to end\<close>

text \<open>
  Smoothing leaves the flat heightfield as it is, whatever the number of passes; a 2 by 2
  grid has no interior vertex, so the Laplacian passes change nothing either.
\<close>

lemma smoothPass_flat:
  "smoothPass kern 1 2 2 ([0, 0, 0, 0], [0, 0, 0, 0]) = ([0, 0, 0, 0], [0, 0, 0, 0])"
  by (simp add: smoothPass_def tapSums_def tapStep_def arraySet_def Let_def upt_rec upto.simps
      eval_nat_numeral)

lemma fold_fixpoint: "f s = s \<Longrightarrow> fold (\<lambda>x. f) xs s = s"
  by (induction xs) simp_all

lemma smooth_flat: "smoothElevationData flatHeightfield passes 1 = flatHeightfield"
proof (cases "passes = 0")
  case True
  then show ?thesis by (simp add: smoothElevationData_def)
next
  case False
  have r: "replicate 4 (0::real) = [0, 0, 0, 0]" by (simp add: eval_nat_numeral)
  have "fold (\<lambda>pass. smoothPass (gaussianKernel 1) 1 2 2) [0..<passes] ([0, 0, 0, 0], [0, 0, 0, 0])
          = ([0, 0, 0, 0], [0, 0, 0, 0])"
    by (rule fold_fixpoint) (rule smoothPass_flat)
  with False show ?thesis
    by (simp add: smoothElevationData_def flatHeightfield_def Let_def r minOver_def maxOver_def)
qed

lemma grid_flat:
  "generateGridMesh flatHeightfield
      \<lparr>smoothingPasses = sp, smoothingRadius = sr, verticalExaggeration = Some ve,
        meshSize = Some 10, decimationFactor = Some 1, laplacianPasses = lp\<rparr>
   = Some \<lparr>positions = [-5, -5, 0, 5, -5, 0, -5, 5, 0, 5, 5, 0], indices = [0, 2, 1, 1, 2, 3],
            normals = calculateNormals [-5, -5, 0, 5, -5, 0, -5, 5, 0, 5, 5, 0] [0, 2, 1, 1, 2, 3] 4\<rparr>"
  by (simp add: generateGridMesh_def flatHeightfield_def orDefault_def ceilDiv_def gridVertex_def gridCell_def
      Let_def upt_rec eval_nat_numeral)

lemma fold_fst_fixpoint:
  assumes "\<And>b. fst (f (a, b)) = a"
  shows "fst (fold (\<lambda>x. f) xs (a, b)) = a"
proof (induction xs arbitrary: b)
  case Nil
  show ?case by simp
next
  case (Cons x xs)
  obtain b' where "f (a, b) = (a, b')" using assms [of b] by (cases "f (a, b)") simp
  with Cons.IH [of b'] show ?case by simp
qed

lemma laplacian_flat:
  "applyLaplacianSmoothing pos ind 2 2 passes lam = pos"
proof -
  have "fst (laplacianPass 2 2 lam (pos, b)) = pos" for b
    by (simp add: laplacianPass_def)
  then have "fst (fold (\<lambda>pass. laplacianPass 2 2 lam) [0..<passes] (pos, replicate (length pos) 0))
               = pos"
    by (rule fold_fst_fixpoint)
  then show ?thesis by (simp add: applyLaplacianSmoothing_def Let_def)
qed

lemma terrain_flat:
  "generateTerrainMesh flatHeightfield
      \<lparr>smoothingPasses = Some level, smoothingRadius = Some 1, verticalExaggeration = Some ve,
        meshSize = Some 10, decimationFactor = Some 1, laplacianPasses = Some lp\<rparr>
   = Some \<lparr>positions = [-5, -5, 0, 5, -5, 0, -5, 5, 0, 5, 5, 0], indices = [0, 2, 1, 1, 2, 3],
            normals = calculateNormals [-5, -5, 0, 5, -5, 0, -5, 5, 0, 5, 5, 0] [0, 2, 1, 1, 2, 3] 4\<rparr>"
proof -
  have dims: "width flatHeightfield = 2" "height flatHeightfield = 2" by (simp_all add: flatHeightfield_def)
  show ?thesis
    by (simp add: generateTerrainMesh_def orDefault_def Let_def ceilDiv_def dims
        smooth_flat [unfolded One_nat_def] grid_flat [unfolded One_nat_def]
        laplacian_flat)
qed


lemma edges_flat:
  "getBoundaryEdges
      \<lparr>position = [-5, -5, 0, 5, -5, 0, -5, 5, 0, 5, 5, 0], index = Some [0, 2, 1, 1, 2, 3]\<rparr>
   = [[-5, -5, 0, -5, 5, 0], [5, -5, 0, -5, -5, 0], [-5, 5, 0, 5, 5, 0], [5, 5, 0, 5, -5, 0]]"
  by code_simp


lemma solid_flat:
  "createSolidMesh (scaleGeometry
      \<lparr>position = [-5, -5, 0, 5, -5, 0, -5, 5, 0, 5, 5, 0], index = Some [0, 2, 1, 1, 2, 3]\<rparr> 1) 5
   = \<lparr>position = concat flatSolid, index = None\<rparr>"
  by code_simp

lemma terrainSolid_flat:
  "terrainSolid flatHeightfield
      \<lparr>tileSize = 10, baseThickness = 5, exportExaggeration = ve, smoothingLevel = sl,
        filename = fn\<rparr>
   = Some \<lparr>position = concat flatSolid, index = None\<rparr>"
  by (simp add: terrainSolid_def Let_def terrain_flat terrain_flat [unfolded One_nat_def]
      solid_flat solid_flat [unfolded One_nat_def])

lemma flatSolid_length: "length (concat flatSolid) = 9 * 12"
  by (simp add: flatSolid_def flatTop_def flatBottom_def flatWalls_def)

text \<open>
  Claim C1. For the flat 2 by 2 heightfield (all elevations 0), \<open>baseThickness = 5\<close> and
  \<open>tileSize = 10\<close>, with any vertical exaggeration and smoothing level, the solid that
  \<open>exportTerrainToSTL\<close> gets from \<open>createSolidMesh\<close> consists of 12 triangles (\<open>9 * 12\<close>
  numbers): 2 of the top, 2 of the bottom and 2 for each of the 4 boundary edges; and the
  binary STL made from it is 684 bytes long.
\<close>

theorem flat_tile_export:
  "\<exists>solid bytes.
     terrainSolid flatHeightfield
       \<lparr>tileSize = 10, baseThickness = 5, exportExaggeration = ve, smoothingLevel = sl,
         filename = fn\<rparr> = Some solid \<and>
     position solid = concat (flatTop @ flatBottom @ flatWalls) \<and>
     length flatTop = 2 \<and> length flatBottom = 2 \<and> length flatWalls = 2 * 4 \<and>
     length (position solid) = 9 * 12 \<and>
     exportTerrainToSTL f32 flatHeightfield
       \<lparr>tileSize = 10, baseThickness = 5, exportExaggeration = ve, smoothingLevel = sl,
         filename = fn\<rparr> = Some bytes \<and>
     length bytes = 684"
proof -
  let ?solid = "\<lparr>position = concat flatSolid, index = None\<rparr>"
  have "generateBinarySTL f32 ?solid = Some (stlLayout f32 (position ?solid) 12)"
    by (rule generateBinarySTL_layout) (simp add: flatSolid_length)
  then show ?thesis
    using flatSolid_length
    by (simp add: exportTerrainToSTL_def terrainSolid_flat stlLayout_length flatSolid_def
        flatTop_def flatBottom_def flatWalls_def)
qed

section \<open>Properties of the adaptive TIN\<close>

text \<open>
  Every step of the point selection only appends to \<open>selectedPoints\<close>, which starts as the
  list of the four corner points.
\<close>

lemma fold_fst_prefix:
  assumes "\<And>x s. x \<in> set xs \<Longrightarrow> \<exists>r. fst (f x s) = fst s @ r"
  shows "\<exists>r. fst (fold f xs s) = fst s @ r"
  using assms
proof (induction xs arbitrary: s)
  case Nil
  show ?case by simp
next
  case (Cons x xs)
  from Cons.prems [of x s] obtain r1 where r1: "fst (f x s) = fst s @ r1" by auto
  from Cons.IH [of "f x s"] Cons.prems obtain r2 where "fst (fold f xs (f x s)) = fst (f x s) @ r2"
    by auto
  with r1 show ?case by simp
qed

lemma gridPoint_prefix: "\<exists>r. fst (gridPoint data m py px st) = fst st @ r"
  by (cases st) (simp add: gridPoint_def Let_def)

lemma gridPoints_prefix:
  "\<exists>r. fst (fold (\<lambda>py st. fold (gridPoint data m py) xs st) ys st) = fst st @ r"
proof (rule fold_fst_prefix)
  fix py s
  show "\<exists>r. fst (fold (gridPoint data m py) xs s) = fst s @ r"
    by (rule fold_fst_prefix) (rule gridPoint_prefix)
qed

lemma final_prefix:
  "\<exists>rest. (if c then fst (fold (\<lambda>py st. fold (gridPoint data m py) xs st) ys (cs @ mid, ex))
             else cs @ mid) = cs @ rest"
  using gridPoints_prefix [of data m xs ys "(cs @ mid, ex)"] by auto

lemma points_prefix:
  "\<exists>rest. points (generateAdaptiveTIN data maxError maxPoints) =
     [pointAt data 0 0 0,
      pointAt data (int (width data) - 1) 0 (int (width data) - 1),
      pointAt data 0 (int (height data) - 1) ((int (height data) - 1) * int (width data)),
      pointAt data (int (width data) - 1) (int (height data) - 1)
        ((int (height data) - 1) * int (width data) + int (width data) - 1)] @ rest"
  unfolding generateAdaptiveTIN_def Let_def fold_push_concat
  by (simp only: TIN.simps append_assoc) (rule final_prefix)

text \<open>
  Claim C7. For every heightfield, every \<open>maxError\<close> and every \<open>maxPoints\<close> (zero and
  negative budgets included), the points of \<open>generateAdaptiveTIN\<close> start with the four
  corners \<open>(0, 0)\<close>, \<open>(width - 1, 0)\<close>, \<open>(0, height - 1)\<close>, \<open>(width - 1, height - 1)\<close>; in
  particular its point set contains them.
\<close>

theorem tin_corners:
  "take 4 (map (\<lambda>p. (tinX p, tinY p)) (points (generateAdaptiveTIN data maxError maxPoints)))
     = corners data \<and>
   set (corners data)
     \<subseteq> set (map (\<lambda>p. (tinX p, tinY p)) (points (generateAdaptiveTIN data maxError maxPoints)))"
proof -
  from points_prefix [of data maxError maxPoints] obtain rest where
    "points (generateAdaptiveTIN data maxError maxPoints) =
     [pointAt data 0 0 0,
      pointAt data (int (width data) - 1) 0 (int (width data) - 1),
      pointAt data 0 (int (height data) - 1) ((int (height data) - 1) * int (width data)),
      pointAt data (int (width data) - 1) (int (height data) - 1)
        ((int (height data) - 1) * int (width data) + int (width data) - 1)] @ rest" ..
  then show ?thesis by (simp add: corners_def pointAt_def)
qed

section \<open>Invalid inputs\<close>








end
